theory Spec2Isabelle
  imports Complex_Main
begin

section \<open>The three-body simulator of 3BodyProblem.py\<close>

text \<open>
  A shallow embedding of the class \<^verbatim>\<open>ThreeBodySimulator\<close>.

  Numbers. The program computes in IEEE double precision; the model computes in the
  reals, so rounding and overflow are not represented. A numpy operation whose result
  is not a real number (a quotient with divisor zero, the logarithm of a non-positive
  number, the mean of an empty array) yields inf or nan in the program, together with a
  RuntimeWarning, and never an exception; the model has no such values and returns the
  error \<open>ZeroDivide\<close> or \<open>LogDomain\<close> at that point. Indexing past the end of an
  array and combining arrays whose shapes numpy cannot broadcast raise IndexError and
  ValueError in the program and are the errors of the same names here, and so is the
  TypeError of a call with an argument that no parameter takes.

  Arrays. A numpy array of shape (n,) is a list of reals, an array of shape (n, 2) a list
  of pairs; every two-dimensional array of the program has rows of length two.
  Arithmetic between two arrays follows numpy's broadcasting along the first axis.

  Mutation. Methods that assign to fields of \<^verbatim>\<open>self\<close> take the simulator and
  return the updated one.
\<close>

subsection \<open>Physical constants and scaling (lines 6 to 18)\<close>

definition G :: real where
  "G = 6.67430 / 10 ^ 11"

definition AU :: real where
  "AU = 1.496 * 10 ^ 11"

definition SOLAR_MASS :: real where
  "SOLAR_MASS = 1.989 * 10 ^ 30"

definition DAY :: real where
  "DAY = 24 * 3600"

definition MASS_SCALE :: real where
  "MASS_SCALE = SOLAR_MASS"

definition DISTANCE_SCALE :: real where
  "DISTANCE_SCALE = AU"

definition TIME_SCALE :: real where
  "TIME_SCALE = DAY * 1"

definition G_scaled :: real where
  "G_scaled = G * MASS_SCALE * (TIME_SCALE ^ 2) / (DISTANCE_SCALE ^ 3)"

subsection \<open>Errors and sequencing\<close>

datatype error = IndexError | ValueError | TypeError | ZeroDivide | LogDomain

definition ebind :: "error + 'a \<Rightarrow> ('a \<Rightarrow> error + 'b) \<Rightarrow> error + 'b" where
  "ebind r f = (case r of Inl e \<Rightarrow> Inl e | Inr x \<Rightarrow> f x)"

subsection \<open>Rows of an (n, 2) array\<close>

type_synonym vec = "real \<times> real"

definition vadd :: "vec \<Rightarrow> vec \<Rightarrow> vec" where
  "vadd a b = (fst a + fst b, snd a + snd b)"

definition vsub :: "vec \<Rightarrow> vec \<Rightarrow> vec" where
  "vsub a b = (fst a - fst b, snd a - snd b)"

definition smul :: "real \<Rightarrow> vec \<Rightarrow> vec" where
  "smul c a = (c * fst a, c * snd a)"

definition vsquare :: "vec \<Rightarrow> vec" where
  "vsquare a = ((fst a) ^ 2, (snd a) ^ 2)"

text \<open>\<^verbatim>\<open>np.linalg.norm\<close> of a row: the Euclidean norm.\<close>

definition vnorm :: "vec \<Rightarrow> real" where
  "vnorm a = sqrt ((fst a) ^ 2 + (snd a) ^ 2)"

subsection \<open>The numpy operations the simulator uses\<close>

definition np_index :: "'a list \<Rightarrow> nat \<Rightarrow> error + 'a" where
  "np_index xs i = (if i < length xs then Inr (xs ! i) else Inl IndexError)"

definition fdiv :: "real \<Rightarrow> real \<Rightarrow> error + real" where
  "fdiv x y = (if y = 0 then Inl ZeroDivide else Inr (x / y))"

definition vdiv :: "vec \<Rightarrow> real \<Rightarrow> error + vec" where
  "vdiv a c = ebind (fdiv (fst a) c) (\<lambda>x. ebind (fdiv (snd a) c) (\<lambda>y. Inr (x, y)))"

text \<open>
  A binary operation between two arrays, broadcast along the first axis: equal numbers
  of rows combine row by row, an array of one row combines with every row of the other,
  anything else is numpy's ValueError.
\<close>

definition np_broadcast :: "('a \<Rightarrow> 'b \<Rightarrow> 'c) \<Rightarrow> 'a list \<Rightarrow> 'b list \<Rightarrow> error + 'c list" where
  "np_broadcast f xs ys =
     (if length xs = length ys then Inr (map2 f xs ys)
      else if length xs = 1 then Inr (map (f (hd xs)) ys)
      else if length ys = 1 then Inr (map (\<lambda>x. f x (hd ys)) xs)
      else Inl ValueError)"

text \<open>
  An in-place operation (\<^verbatim>\<open>a += b\<close>, \<^verbatim>\<open>a[:] = b\<close>): the result keeps the
  shape of \<open>a\<close>, so only \<open>b\<close> may be broadcast.
\<close>

definition np_inplace :: "('a \<Rightarrow> 'b \<Rightarrow> 'a) \<Rightarrow> 'a list \<Rightarrow> 'b list \<Rightarrow> error + 'a list" where
  "np_inplace f xs ys =
     (if length ys = length xs then Inr (map2 f xs ys)
      else if length ys = 1 then Inr (map (\<lambda>x. f x (hd ys)) xs)
      else Inl ValueError)"

definition np_add :: "vec list \<Rightarrow> vec list \<Rightarrow> error + vec list" where
  "np_add xs ys = np_broadcast vadd xs ys"

definition np_iadd :: "vec list \<Rightarrow> vec list \<Rightarrow> error + vec list" where
  "np_iadd xs ys = np_inplace vadd xs ys"

definition np_assign :: "vec list \<Rightarrow> vec list \<Rightarrow> error + vec list" where
  "np_assign xs ys = np_inplace (\<lambda>old new. new) xs ys"

text \<open>A scalar times an array.\<close>

definition np_scale :: "real \<Rightarrow> vec list \<Rightarrow> vec list" where
  "np_scale c xs = map (smul c) xs"

text \<open>\<^verbatim>\<open>np.sum(a, axis=0)\<close> and \<^verbatim>\<open>np.sum(a)\<close> of an (n, 2) array.\<close>

definition np_sum_rows :: "vec list \<Rightarrow> vec" where
  "np_sum_rows xs = (sum_list (map fst xs), sum_list (map snd xs))"

definition np_sum_all :: "vec list \<Rightarrow> real" where
  "np_sum_all xs = sum_list (map (\<lambda>a. fst a + snd a) xs)"

definition np_log :: "real \<Rightarrow> error + real" where
  "np_log x = (if 0 < x then Inr (ln x) else Inl LogDomain)"

fun np_log_all :: "real list \<Rightarrow> error + real list" where
  "np_log_all [] = Inr []"
| "np_log_all (x # xs) =
     ebind (np_log x) (\<lambda>y. ebind (np_log_all xs) (\<lambda>ys. Inr (y # ys)))"

definition np_diff :: "real list \<Rightarrow> real list" where
  "np_diff xs = map2 (\<lambda>a b. b - a) xs (tl xs)"

definition np_mean :: "real list \<Rightarrow> error + real" where
  "np_mean xs = fdiv (sum_list xs) (real (length xs))"

subsection \<open>Bounded deques\<close>

text \<open>
  \<^verbatim>\<open>collections.deque(maxlen=n)\<close>: appending to a full deque discards items from
  the left end.
\<close>

record 'a deque =
  maxlen :: nat
  items :: "'a list"

definition deque_new :: "nat \<Rightarrow> 'a deque" where
  "deque_new n = \<lparr>maxlen = n, items = []\<rparr>"

definition deque_append :: "'a deque \<Rightarrow> 'a \<Rightarrow> 'a deque" where
  "deque_append d x =
     d\<lparr>items := drop (length (items d) + 1 - maxlen d) (items d @ [x])\<rparr>"

subsection \<open>The simulator state (the fields assigned in \<^verbatim>\<open>__init__\<close>)\<close>

record simulator =
  masses :: "real list"
  positions :: "vec list"
  velocities :: "vec list"
  trajectory_length :: nat
  trajectories :: "vec deque list"
  dt :: real
  time :: real
  chaos_times :: "real deque"
  chaos_separations :: "real deque"
  chaos_lyapunov :: "real deque"
  initial_separation :: real
  colors :: "string list"
  sizes :: "nat list"

subsection \<open>\<^verbatim>\<open>adjust_center_of_mass\<close> (lines 66 to 72)\<close>

definition adjust_center_of_mass :: "simulator \<Rightarrow> error + simulator" where
  "adjust_center_of_mass s =
     (let total_mass = sum_list (masses s) in
      ebind (np_broadcast smul (masses s) (positions s)) (\<lambda>mp.
      ebind (vdiv (np_sum_rows mp) total_mass) (\<lambda>com_pos.
      ebind (np_broadcast smul (masses s) (velocities s)) (\<lambda>mv.
      ebind (vdiv (np_sum_rows mv) total_mass) (\<lambda>com_vel.
        Inr (s\<lparr>positions := map (\<lambda>p. vsub p com_pos) (positions s),
                velocities := map (\<lambda>v. vsub v com_vel) (velocities s)\<rparr>))))))"

subsection \<open>\<^verbatim>\<open>__init__\<close> (lines 21 to 64)\<close>

text \<open>
  \<open>init_with\<close> is the body of the constructor with its three array literals as
  parameters; the constructor itself takes no argument and is \<open>init\<close>. The fields
  the constructor assigns after the call of \<^verbatim>\<open>adjust_center_of_mass\<close> do not exist
  during that call, which reads and writes the three arrays only; the record holds their
  later values from the start, and \<open>initial_separation\<close> holds 0 until line 60 assigns it.
\<close>

definition init_with :: "real list \<Rightarrow> vec list \<Rightarrow> vec list \<Rightarrow> error + simulator" where
  "init_with ms ps vs =
     ebind (adjust_center_of_mass
       \<lparr>masses = map (\<lambda>m. m * MASS_SCALE) ms,
        positions = map (\<lambda>p. smul DISTANCE_SCALE p) ps,
        velocities = map (\<lambda>v. smul (sqrt (G_scaled * MASS_SCALE / DISTANCE_SCALE)) v) vs,
        trajectory_length = 500,
        trajectories = replicate 3 (deque_new 500),
        dt = TIME_SCALE * 100,
        time = 0,
        chaos_times = deque_new 1000,
        chaos_separations = deque_new 1000,
        chaos_lyapunov = deque_new 1000,
        initial_separation = 0,
        colors = [''gold'', ''red'', ''blue''],
        sizes = [20, 15, 12]\<rparr>) (\<lambda>s.
     ebind (np_index (positions s) 1) (\<lambda>p1.
     ebind (np_index (positions s) 2) (\<lambda>p2.
       Inr (s\<lparr>initial_separation := vnorm (vsub p1 p2)\<rparr>))))"

definition init :: "error + simulator" where
  "init = init_with [1.0, 0.1, 0.05]
                    [(0.0, 0.0), (1.5, 0.0), (0.75, 1.3)]
                    [(0.0, 1.0), (0.0, - 3.0), (- 2.5, 1.5)]"

text \<open>
  A call \<^verbatim>\<open>ThreeBodySimulator(...)\<close>. Line 21 declares no parameter besides
  \<^verbatim>\<open>self\<close>, so Python raises TypeError for a call with any argument, positional or
  by keyword, before the body runs; the arguments of interest are arrays.
\<close>

datatype argument = Array1 "real list" | Array2 "vec list"

definition construct :: "argument list \<Rightarrow> error + simulator" where
  "construct args = (if args = [] then init else Inl TypeError)"

subsection \<open>\<^verbatim>\<open>compute_accelerations\<close> (lines 74 to 87)\<close>

text \<open>
  \<open>pair_acceleration\<close> is the body of the inner loop for one pair \<open>i \<noteq> j\<close>
  (lines 80 to 85): the vector that line 86 adds to row \<open>i\<close>.
\<close>

definition softening :: real where
  "softening = 0.0001 * DISTANCE_SCALE"

definition distance_softened :: "vec \<Rightarrow> real" where
  "distance_softened r_vec = sqrt ((vnorm r_vec) ^ 2 + softening ^ 2)"

definition pair_acceleration :: "real list \<Rightarrow> vec list \<Rightarrow> nat \<Rightarrow> nat \<Rightarrow> error + vec" where
  "pair_acceleration ms ps i j =
     ebind (np_index ps j) (\<lambda>pj.
     ebind (np_index ps i) (\<lambda>pi.
     let r_vec = vsub pj pi in
     ebind (np_index ms j) (\<lambda>mj.
     ebind (fdiv (G_scaled * mj) ((distance_softened r_vec) ^ 3)) (\<lambda>force_magnitude.
       Inr (smul force_magnitude r_vec)))))"

fun accel_inner :: "simulator \<Rightarrow> nat \<Rightarrow> nat list \<Rightarrow> vec list \<Rightarrow> error + vec list" where
  "accel_inner s i [] accelerations = Inr accelerations"
| "accel_inner s i (j # js) accelerations =
     (if i \<noteq> j then
        ebind (pair_acceleration (masses s) (positions s) i j) (\<lambda>d.
        ebind (np_index accelerations i) (\<lambda>a.
          accel_inner s i js (accelerations[i := vadd a d])))
      else accel_inner s i js accelerations)"

fun accel_outer :: "simulator \<Rightarrow> nat \<Rightarrow> nat list \<Rightarrow> vec list \<Rightarrow> error + vec list" where
  "accel_outer s n [] accelerations = Inr accelerations"
| "accel_outer s n (i # ks) accelerations =
     ebind (accel_inner s i [0..<n] accelerations) (accel_outer s n ks)"

definition compute_accelerations :: "simulator \<Rightarrow> error + vec list" where
  "compute_accelerations s =
     (let n = length (positions s) in
      accel_outer s n [0..<n] (replicate n (0, 0)))"

subsection \<open>\<^verbatim>\<open>analyze_chaos\<close> (lines 117 to 131)\<close>

definition analyze_chaos :: "simulator \<Rightarrow> error + simulator" where
  "analyze_chaos s =
     ebind (np_index (positions s) 1) (\<lambda>p1.
     ebind (np_index (positions s) 2) (\<lambda>p2.
     let current_separation = vnorm (vsub p1 p2);
         times = deque_append (chaos_times s) (time s / (DAY * 365.25)) in
     ebind (fdiv current_separation (initial_separation s)) (\<lambda>ratio.
     let separations = deque_append (chaos_separations s) ratio in
     if length (items separations) > 10 then
       (let valid_separations = filter (\<lambda>x. x > 1 / 10 ^ 10) (items separations) in
        if length valid_separations > 5 then
          ebind (np_log_all valid_separations) (\<lambda>logs.
          ebind (np_mean (np_diff logs)) (\<lambda>lyapunov.
            Inr (s\<lparr>chaos_times := times, chaos_separations := separations,
                    chaos_lyapunov := deque_append (chaos_lyapunov s) lyapunov\<rparr>)))
        else
          Inr (s\<lparr>chaos_times := times, chaos_separations := separations,
                  chaos_lyapunov := deque_append (chaos_lyapunov s) 0\<rparr>))
     else
       Inr (s\<lparr>chaos_times := times, chaos_separations := separations,
               chaos_lyapunov := deque_append (chaos_lyapunov s) 0\<rparr>))))"

subsection \<open>\<^verbatim>\<open>update_system\<close> (lines 89 to 115)\<close>

text \<open>
  The local function \<^verbatim>\<open>derivatives\<close> (lines 91 to 96) overwrites the stored
  positions with the trial positions, computes the accelerations, and writes the saved
  copy back. It returns the simulator with the pair (vel, acc). In the first call
  \<^verbatim>\<open>pos\<close> is the stored array itself, so the overwrite copies the array onto itself;
  the returned \<^verbatim>\<open>vel\<close> is then the stored velocity array, which is not written before
  its last use on line 106.
\<close>

definition derivatives :: "simulator \<Rightarrow> vec list \<Rightarrow> vec list \<Rightarrow> error + (simulator \<times> vec list \<times> vec list)" where
  "derivatives s pos vel =
     (let old_pos = positions s in
      ebind (np_assign (positions s) pos) (\<lambda>trial.
      let s1 = s\<lparr>positions := trial\<rparr> in
      ebind (compute_accelerations s1) (\<lambda>acc.
      ebind (np_assign (positions s1) old_pos) (\<lambda>restored.
        Inr (s1\<lparr>positions := restored\<rparr>, vel, acc)))))"

text \<open>Lines 98 to 109: the four stages, the two in-place updates and the clock.\<close>

definition rk4_step :: "simulator \<Rightarrow> error + simulator" where
  "rk4_step s0 =
     ebind (derivatives s0 (positions s0) (velocities s0)) (\<lambda>(s1, k1_pos, k1_vel).
     ebind (np_add (positions s1) (np_scale (0.5 * dt s1) k1_pos)) (\<lambda>pos2.
     ebind (np_add (velocities s1) (np_scale (0.5 * dt s1) k1_vel)) (\<lambda>vel2.
     ebind (derivatives s1 pos2 vel2) (\<lambda>(s2, k2_pos, k2_vel).
     ebind (np_add (positions s2) (np_scale (0.5 * dt s2) k2_pos)) (\<lambda>pos3.
     ebind (np_add (velocities s2) (np_scale (0.5 * dt s2) k2_vel)) (\<lambda>vel3.
     ebind (derivatives s2 pos3 vel3) (\<lambda>(s3, k3_pos, k3_vel).
     ebind (np_add (positions s3) (np_scale (dt s3) k3_pos)) (\<lambda>pos4.
     ebind (np_add (velocities s3) (np_scale (dt s3) k3_vel)) (\<lambda>vel4.
     ebind (derivatives s3 pos4 vel4) (\<lambda>(s4, k4_pos, k4_vel).
     ebind (np_add k1_pos (np_scale 2 k2_pos)) (\<lambda>a1.
     ebind (np_add a1 (np_scale 2 k3_pos)) (\<lambda>a2.
     ebind (np_add a2 k4_pos) (\<lambda>a3.
     ebind (np_iadd (positions s4) (np_scale (dt s4 / 6) a3)) (\<lambda>new_positions.
     let s5 = s4\<lparr>positions := new_positions\<rparr> in
     ebind (np_add k1_vel (np_scale 2 k2_vel)) (\<lambda>b1.
     ebind (np_add b1 (np_scale 2 k3_vel)) (\<lambda>b2.
     ebind (np_add b2 k4_vel) (\<lambda>b3.
     ebind (np_iadd (velocities s5) (np_scale (dt s5 / 6) b3)) (\<lambda>new_velocities.
     let s6 = s5\<lparr>velocities := new_velocities\<rparr> in
       Inr (s6\<lparr>time := time s6 + dt s6\<rparr>)))))))))))))))))))"

text \<open>Lines 112 and 113: one position appended to each body's trajectory.\<close>

fun store_trajectories :: "vec list \<Rightarrow> nat list \<Rightarrow> vec deque list \<Rightarrow> error + vec deque list" where
  "store_trajectories ps [] tr = Inr tr"
| "store_trajectories ps (i # ks) tr =
     ebind (np_index tr i) (\<lambda>d.
     ebind (np_index ps i) (\<lambda>p.
       store_trajectories ps ks (tr[i := deque_append d p])))"

definition update_system :: "simulator \<Rightarrow> error + simulator" where
  "update_system s =
     ebind (rk4_step s) (\<lambda>s1.
     ebind (store_trajectories (positions s1) [0..<length (positions s1)] (trajectories s1)) (\<lambda>tr.
       analyze_chaos (s1\<lparr>trajectories := tr\<rparr>)))"

text \<open>\<open>n\<close> calls of \<^verbatim>\<open>update_system\<close> in a row, as the loop on line 231 makes them.\<close>

fun run_steps :: "nat \<Rightarrow> simulator \<Rightarrow> error + simulator" where
  "run_steps 0 s = Inr s"
| "run_steps (Suc n) s = ebind (update_system s) (run_steps n)"

subsection \<open>\<^verbatim>\<open>get_energy\<close> (lines 133 to 140)\<close>

text \<open>
  The method assigns to no field of \<^verbatim>\<open>self\<close> and to no global; it is a function from
  the simulator to the energy.
\<close>

fun energy_inner :: "simulator \<Rightarrow> nat \<Rightarrow> nat list \<Rightarrow> real \<Rightarrow> error + real" where
  "energy_inner s i [] potential = Inr potential"
| "energy_inner s i (j # js) potential =
     ebind (np_index (positions s) j) (\<lambda>pj.
     ebind (np_index (positions s) i) (\<lambda>pi.
     let r = vnorm (vsub pj pi) in
     ebind (np_index (masses s) i) (\<lambda>mi.
     ebind (np_index (masses s) j) (\<lambda>mj.
     ebind (fdiv (G_scaled * mi * mj) r) (\<lambda>q.
       energy_inner s i js (potential - q))))))"

fun energy_outer :: "simulator \<Rightarrow> nat \<Rightarrow> nat list \<Rightarrow> real \<Rightarrow> error + real" where
  "energy_outer s n [] potential = Inr potential"
| "energy_outer s n (i # ks) potential =
     ebind (energy_inner s i [i + 1..<n] potential) (energy_outer s n ks)"

definition get_energy :: "simulator \<Rightarrow> error + real" where
  "get_energy s =
     ebind (np_broadcast smul (masses s) (map vsquare (velocities s))) (\<lambda>mv.
     let kinetic = 0.5 * np_sum_all mv;
         n = length (masses s) in
     ebind (energy_outer s n [0..<n] 0.0) (\<lambda>potential.
       Inr (kinetic + potential)))"

section \<open>Reference definitions\<close>

text \<open>
  The formulas of the specification, written without loops and without errors, against
  which the program is compared.
\<close>

subsection \<open>Shapes\<close>

text \<open>The simulator holds three bodies: every per-body array has three rows.\<close>

definition three_bodies :: "simulator \<Rightarrow> bool" where
  "three_bodies s \<longleftrightarrow>
     length (masses s) = 3 \<and> length (positions s) = 3 \<and>
     length (velocities s) = 3 \<and> length (trajectories s) = 3"

subsection \<open>Centre of mass\<close>

text \<open>The sum of \<open>mass[i] * x[i]\<close> over the bodies.\<close>

definition weighted_sum :: "real list \<Rightarrow> vec list \<Rightarrow> vec" where
  "weighted_sum ms xs = np_sum_rows (map2 smul ms xs)"

subsection \<open>Softened gravity\<close>

text \<open>
  The acceleration of body \<open>i\<close> due to body \<open>j\<close>, \<open>G_scaled * mass[j] * r / d ^ 3\<close>
  with \<open>r = pos[j] - pos[i]\<close> and \<open>d = sqrt(|r|^2 + softening^2)\<close>, and the field
  \<open>accel\<close> that sums it over all \<open>j \<noteq> i\<close>.
\<close>

definition accel_term :: "real list \<Rightarrow> vec list \<Rightarrow> nat \<Rightarrow> nat \<Rightarrow> vec" where
  "accel_term ms ps i j =
     (let r = vsub (ps ! j) (ps ! i);
          d = sqrt ((vnorm r) ^ 2 + softening ^ 2)
      in smul (G_scaled * (ms ! j) / d ^ 3) r)"

definition accel :: "real list \<Rightarrow> vec list \<Rightarrow> vec list" where
  "accel ms ps =
     map (\<lambda>i. np_sum_rows (map (accel_term ms ps i) (filter (\<lambda>j. j \<noteq> i) [0..<length ps])))
       [0..<length ps]"

subsection \<open>The classical Runge-Kutta step\<close>

text \<open>
  For the system \<open>dpos/dt = vel\<close>, \<open>dvel/dt = accel(pos)\<close> and the step \<open>h\<close>. A stage is
  the pair of its position derivative and its velocity derivative.
\<close>

definition arr_add :: "vec list \<Rightarrow> vec list \<Rightarrow> vec list" where
  "arr_add xs ys = map2 vadd xs ys"

definition rk4_k1 :: "real \<Rightarrow> real list \<Rightarrow> vec list \<Rightarrow> vec list \<Rightarrow> vec list \<times> vec list" where
  "rk4_k1 h ms pos vel = (vel, accel ms pos)"

definition rk4_k2 :: "real \<Rightarrow> real list \<Rightarrow> vec list \<Rightarrow> vec list \<Rightarrow> vec list \<times> vec list" where
  "rk4_k2 h ms pos vel =
     (let k1 = rk4_k1 h ms pos vel
      in (arr_add vel (np_scale (h / 2) (snd k1)),
          accel ms (arr_add pos (np_scale (h / 2) (fst k1)))))"

definition rk4_k3 :: "real \<Rightarrow> real list \<Rightarrow> vec list \<Rightarrow> vec list \<Rightarrow> vec list \<times> vec list" where
  "rk4_k3 h ms pos vel =
     (let k2 = rk4_k2 h ms pos vel
      in (arr_add vel (np_scale (h / 2) (snd k2)),
          accel ms (arr_add pos (np_scale (h / 2) (fst k2)))))"

definition rk4_k4 :: "real \<Rightarrow> real list \<Rightarrow> vec list \<Rightarrow> vec list \<Rightarrow> vec list \<times> vec list" where
  "rk4_k4 h ms pos vel =
     (let k3 = rk4_k3 h ms pos vel
      in (arr_add vel (np_scale h (snd k3)),
          accel ms (arr_add pos (np_scale h (fst k3)))))"

definition rk4_positions :: "real \<Rightarrow> real list \<Rightarrow> vec list \<Rightarrow> vec list \<Rightarrow> vec list" where
  "rk4_positions h ms pos vel =
     arr_add pos (np_scale (h / 6)
       (arr_add (arr_add (arr_add (fst (rk4_k1 h ms pos vel))
                                  (np_scale 2 (fst (rk4_k2 h ms pos vel))))
                         (np_scale 2 (fst (rk4_k3 h ms pos vel))))
                (fst (rk4_k4 h ms pos vel))))"

definition rk4_velocities :: "real \<Rightarrow> real list \<Rightarrow> vec list \<Rightarrow> vec list \<Rightarrow> vec list" where
  "rk4_velocities h ms pos vel =
     arr_add vel (np_scale (h / 6)
       (arr_add (arr_add (arr_add (snd (rk4_k1 h ms pos vel))
                                  (np_scale 2 (snd (rk4_k2 h ms pos vel))))
                         (np_scale 2 (snd (rk4_k3 h ms pos vel))))
                (snd (rk4_k4 h ms pos vel))))"

text \<open>
  The positions and velocities after \<open>n\<close> steps of size \<open>h\<close>: a function of the masses,
  the initial positions and velocities and the step alone.
\<close>

fun rk4_trajectory :: "nat \<Rightarrow> real \<Rightarrow> real list \<Rightarrow> vec list \<times> vec list \<Rightarrow> vec list \<times> vec list" where
  "rk4_trajectory 0 h ms pv = pv"
| "rk4_trajectory (Suc n) h ms pv =
     rk4_trajectory n h ms
       (rk4_positions h ms (fst pv) (snd pv), rk4_velocities h ms (fst pv) (snd pv))"

subsection \<open>Energy\<close>

definition kinetic_energy :: "real list \<Rightarrow> vec list \<Rightarrow> real" where
  "kinetic_energy ms vs = (\<Sum>i<length ms. 1 / 2 * (ms ! i) * (vnorm (vs ! i)) ^ 2)"

definition potential_energy :: "real list \<Rightarrow> vec list \<Rightarrow> real" where
  "potential_energy ms ps =
     (\<Sum>i<length ms. \<Sum>j = i + 1..<length ms.
        - (G_scaled * (ms ! i) * (ms ! j) / vnorm (vsub (ps ! i) (ps ! j))))"

text \<open>The term of one pair, as line 139 computes it.\<close>

definition pair_potential :: "real list \<Rightarrow> vec list \<Rightarrow> nat \<Rightarrow> nat \<Rightarrow> real" where
  "pair_potential ms ps i j = G_scaled * (ms ! i) * (ms ! j) / vnorm (vsub (ps ! j) (ps ! i))"

subsection \<open>The divergence estimate\<close>

text \<open>The mean of the differences of \<open>ln\<close> between consecutive samples.\<close>

definition mean_log_growth :: "real list \<Rightarrow> real" where
  "mean_log_growth xs = sum_list (np_diff (map ln xs)) / real (length xs - 1)"

text \<open>
  \<open>lyapunov_estimate\<close> keeps the samples above \<open>1e-10\<close>; \<open>lyapunov_below_filtered\<close>
  removes the samples below \<open>1e-10\<close> and no others. They differ on a sample equal to
  \<open>1e-10\<close>.
\<close>

definition lyapunov_estimate :: "real list \<Rightarrow> real" where
  "lyapunov_estimate xs =
     (if length xs > 10 then
        (let valid = filter (\<lambda>x. x > 1 / 10 ^ 10) xs
         in if length valid > 5 then mean_log_growth valid else 0)
      else 0)"

definition lyapunov_below_filtered :: "real list \<Rightarrow> real" where
  "lyapunov_below_filtered xs =
     (if length xs > 10 then
        (let valid = filter (\<lambda>x. \<not> x < 1 / 10 ^ 10) xs
         in if length valid > 5 then mean_log_growth valid else 0)
      else 0)"

subsection \<open>Sample states\<close>

text \<open>A simulator with simple numbers: bodies 2 and 3 are 5 apart.\<close>

definition sample_state :: simulator where
  "sample_state =
     \<lparr>masses = [2, 1, 1],
      positions = [(0, 0), (3, 0), (0, 4)],
      velocities = [(0, 0), (0, 1), (1, 0)],
      trajectory_length = 500,
      trajectories = replicate 3 (deque_new 500),
      dt = 1,
      time = 0,
      chaos_times = deque_new 1000,
      chaos_separations = deque_new 1000,
      chaos_lyapunov = deque_new 1000,
      initial_separation = 5,
      colors = [''gold'', ''red'', ''blue''],
      sizes = [20, 15, 12]\<rparr>"

text \<open>
  A simulator with ten recorded samples: of the separation ratios one is equal to
  \<open>1e-10\<close>, five are below it and four are 1; bodies 2 and 3 are at their initial
  separation, so the next ratio is 1.
\<close>

definition boundary_state :: simulator where
  "boundary_state =
     sample_state
       \<lparr>time := 10,
        chaos_times := \<lparr>maxlen = 1000, items = [1, 2, 3, 4, 5, 6, 7, 8, 9, 10]\<rparr>,
        chaos_separations := \<lparr>maxlen = 1000, items =
          [1 / 10 ^ 11, 1 / 10 ^ 11, 1 / 10 ^ 11, 1 / 10 ^ 11, 1 / 10 ^ 11,
           1 / 10 ^ 10, 1, 1, 1, 1]\<rparr>,
        chaos_lyapunov := \<lparr>maxlen = 1000, items = [0, 0, 0, 0, 0, 0, 0, 0, 0, 0]\<rparr>\<rparr>"

text \<open>The simulator that \<^verbatim>\<open>analyze_chaos\<close> makes of \<open>boundary_state\<close>.\<close>

definition boundary_result :: simulator where
  "boundary_result =
     boundary_state
       \<lparr>chaos_times := \<lparr>maxlen = 1000, items = [1, 2, 3, 4, 5, 6, 7, 8, 9, 10, 10 / (DAY * 365.25)]\<rparr>,
        chaos_separations := \<lparr>maxlen = 1000, items =
          [1 / 10 ^ 11, 1 / 10 ^ 11, 1 / 10 ^ 11, 1 / 10 ^ 11, 1 / 10 ^ 11,
           1 / 10 ^ 10, 1, 1, 1, 1, 1]\<rparr>,
        chaos_lyapunov := \<lparr>maxlen = 1000, items = [0, 0, 0, 0, 0, 0, 0, 0, 0, 0, 0]\<rparr>\<rparr>"

section \<open>Properties\<close>

subsection \<open>Sequencing and array operations\<close>

lemma ebind_Inr [simp]: "ebind (Inr x) f = f x"
  by (simp add: ebind_def)

lemma ebind_Inl [simp]: "ebind (Inl e) f = Inl e"
  by (simp add: ebind_def)

lemma np_index_in_range [simp]: "i < length xs \<Longrightarrow> np_index xs i = Inr (xs ! i)"
  by (simp add: np_index_def)

lemma np_broadcast_same: "length xs = length ys \<Longrightarrow> np_broadcast f xs ys = Inr (map2 f xs ys)"
  by (simp add: np_broadcast_def)

lemma vdiv_nonzero: "c \<noteq> 0 \<Longrightarrow> vdiv a c = Inr (fst a / c, snd a / c)"
  by (simp add: vdiv_def fdiv_def)

subsection \<open>Centre of mass after construction\<close>

lemma weighted_sum_shift:
  "length ms = length xs \<Longrightarrow>
   weighted_sum ms (map (\<lambda>p. vsub p c) xs) = vsub (weighted_sum ms xs) (smul (sum_list ms) c)"
proof (induction ms xs rule: list_induct2)
  case Nil
  show ?case by (simp add: weighted_sum_def np_sum_rows_def vsub_def smul_def)
next
  case (Cons m ms x xs)
  then show ?case
    by (simp add: weighted_sum_def np_sum_rows_def vsub_def smul_def algebra_simps)
qed

lemma weighted_sum_centered:
  assumes "length ms = length xs" and "sum_list ms \<noteq> 0"
  shows "weighted_sum ms (map (\<lambda>p. vsub p (fst (weighted_sum ms xs) / sum_list ms,
                                          snd (weighted_sum ms xs) / sum_list ms)) xs) = (0, 0)"
proof -
  let ?c = "(fst (weighted_sum ms xs) / sum_list ms, snd (weighted_sum ms xs) / sum_list ms)"
  have "weighted_sum ms (map (\<lambda>p. vsub p ?c) xs) = vsub (weighted_sum ms xs) (smul (sum_list ms) ?c)"
    using assms(1) by (rule weighted_sum_shift)
  also have "\<dots> = (0, 0)"
    using assms(2) by (simp add: vsub_def smul_def)
  finally show ?thesis .
qed

lemma adjust_center_of_mass_result:
  assumes "length (masses s) = length (positions s)"
    and "length (masses s) = length (velocities s)"
    and "sum_list (masses s) \<noteq> 0"
  shows "adjust_center_of_mass s =
     Inr (s\<lparr>positions := map (\<lambda>p. vsub p (fst (weighted_sum (masses s) (positions s)) / sum_list (masses s),
                                           snd (weighted_sum (masses s) (positions s)) / sum_list (masses s))) (positions s),
            velocities := map (\<lambda>v. vsub v (fst (weighted_sum (masses s) (velocities s)) / sum_list (masses s),
                                           snd (weighted_sum (masses s) (velocities s)) / sum_list (masses s))) (velocities s)\<rparr>)"
  using assms
  unfolding adjust_center_of_mass_def weighted_sum_def Let_def
  by (simp add: np_broadcast_same vdiv_nonzero)

lemma adjust_center_of_mass_centers:
  assumes "length (masses s) = length (positions s)"
    and "length (masses s) = length (velocities s)"
    and "sum_list (masses s) \<noteq> 0"
  shows "\<exists>s'. adjust_center_of_mass s = Inr s' \<and>
           masses s' = masses s \<and>
           length (positions s') = length (positions s) \<and>
           length (velocities s') = length (velocities s) \<and>
           weighted_sum (masses s') (positions s') = (0, 0) \<and>
           weighted_sum (masses s') (velocities s') = (0, 0)"
  using assms
  by (simp add: adjust_center_of_mass_result weighted_sum_centered)

lemma MASS_SCALE_pos: "0 < MASS_SCALE"
  by (simp add: MASS_SCALE_def SOLAR_MASS_def)

lemma sum_list_scaled: "sum_list (map (\<lambda>m. m * c) ms) = sum_list ms * (c::real)"
  by (induction ms) (simp_all add: algebra_simps)

lemma weighted_sum_index:
  assumes "length xs = length ms"
  shows "weighted_sum ms xs =
     ((\<Sum>i<length ms. ms ! i * fst (xs ! i)), (\<Sum>i<length ms. ms ! i * snd (xs ! i)))"
proof -
  have "sum_list (map fst (map2 smul ms xs)) = (\<Sum>i = 0..<length ms. fst (map2 smul ms xs ! i))"
    using assms by (simp add: sum_list_sum_nth)
  also have "\<dots> = (\<Sum>i = 0..<length ms. ms ! i * fst (xs ! i))"
    using assms by (intro sum.cong) (simp_all add: smul_def)
  finally have f: "sum_list (map fst (map2 smul ms xs)) = (\<Sum>i<length ms. ms ! i * fst (xs ! i))"
    by (simp add: atLeast0LessThan)
  have "sum_list (map snd (map2 smul ms xs)) = (\<Sum>i = 0..<length ms. snd (map2 smul ms xs ! i))"
    using assms by (simp add: sum_list_sum_nth)
  also have "\<dots> = (\<Sum>i = 0..<length ms. ms ! i * snd (xs ! i))"
    using assms by (intro sum.cong) (simp_all add: smul_def)
  finally have s: "sum_list (map snd (map2 smul ms xs)) = (\<Sum>i<length ms. ms ! i * snd (xs ! i))"
    by (simp add: atLeast0LessThan)
  show ?thesis
    unfolding weighted_sum_def np_sum_rows_def using f s by simp
qed

text \<open>
  Claim C3. Once the constructor has run \<^verbatim>\<open>adjust_center_of_mass\<close>, the masses are
  the given ones, the positions and the velocities are the given ones shifted by one
  vector each, and the sum of \<open>mass[i] * position[i]\<close> and the sum of
  \<open>mass[i] * velocity[i]\<close> over all bodies are both the zero vector, component by
  component. This holds for every configuration of at least three bodies with positive
  total mass given to the constructor's body, the hard-coded one included.
\<close>

theorem center_of_mass_zero_after_construction:
  assumes "length ps = length ms" and "length vs = length ms" and "3 \<le> length ms"
    and "0 < sum_list ms"
  shows "\<exists>s cp cv. init_with ms ps vs = Inr s \<and>
           masses s = map (\<lambda>m. m * MASS_SCALE) ms \<and>
           positions s = map (\<lambda>p. vsub (smul DISTANCE_SCALE p) cp) ps \<and>
           velocities s = map (\<lambda>v. vsub (smul (sqrt (G_scaled * MASS_SCALE / DISTANCE_SCALE)) v) cv) vs \<and>
           (\<Sum>i<length ms. masses s ! i * fst (positions s ! i)) = 0 \<and>
           (\<Sum>i<length ms. masses s ! i * snd (positions s ! i)) = 0 \<and>
           (\<Sum>i<length ms. masses s ! i * fst (velocities s ! i)) = 0 \<and>
           (\<Sum>i<length ms. masses s ! i * snd (velocities s ! i)) = 0"
proof -
  define s0 :: simulator where "s0 =
       \<lparr>masses = map (\<lambda>m. m * MASS_SCALE) ms,
        positions = map (\<lambda>p. smul DISTANCE_SCALE p) ps,
        velocities = map (\<lambda>v. smul (sqrt (G_scaled * MASS_SCALE / DISTANCE_SCALE)) v) vs,
        trajectory_length = 500,
        trajectories = replicate 3 (deque_new 500),
        dt = TIME_SCALE * 100,
        time = 0,
        chaos_times = deque_new 1000,
        chaos_separations = deque_new 1000,
        chaos_lyapunov = deque_new 1000,
        initial_separation = 0,
        colors = [''gold'', ''red'', ''blue''],
        sizes = [20, 15, 12]\<rparr>"
  have total: "sum_list (masses s0) \<noteq> 0"
    using assms(4) MASS_SCALE_pos by (simp add: s0_def sum_list_scaled)
  have shape: "length (masses s0) = length (positions s0)" "length (masses s0) = length (velocities s0)"
    using assms(1,2) by (simp_all add: s0_def)
  define cp where "cp = (fst (weighted_sum (masses s0) (positions s0)) / sum_list (masses s0),
                        snd (weighted_sum (masses s0) (positions s0)) / sum_list (masses s0))"
  define cv where "cv = (fst (weighted_sum (masses s0) (velocities s0)) / sum_list (masses s0),
                        snd (weighted_sum (masses s0) (velocities s0)) / sum_list (masses s0))"
  define s1 where "s1 = s0\<lparr>positions := map (\<lambda>p. vsub p cp) (positions s0),
                           velocities := map (\<lambda>v. vsub v cv) (velocities s0)\<rparr>"
  have adj: "adjust_center_of_mass s0 = Inr s1"
    unfolding s1_def cp_def cv_def using shape total by (rule adjust_center_of_mass_result)
  have zp: "weighted_sum (masses s1) (positions s1) = (0, 0)"
    unfolding s1_def cp_def using shape(1) total by (simp add: weighted_sum_centered)
  have zv: "weighted_sum (masses s1) (velocities s1) = (0, 0)"
    unfolding s1_def cv_def using shape(2) total by (simp add: weighted_sum_centered)
  have len: "length (positions s1) = length (masses s1)" "length (velocities s1) = length (masses s1)"
    "length (masses s1) = length ms"
    using assms(1,2) by (simp_all add: s1_def s0_def)
  have sums: "(\<Sum>i<length ms. masses s1 ! i * fst (positions s1 ! i)) = 0"
    "(\<Sum>i<length ms. masses s1 ! i * snd (positions s1 ! i)) = 0"
    "(\<Sum>i<length ms. masses s1 ! i * fst (velocities s1 ! i)) = 0"
    "(\<Sum>i<length ms. masses s1 ! i * snd (velocities s1 ! i)) = 0"
    using zp zv weighted_sum_index [OF len(1)] weighted_sum_index [OF len(2)] len(3)
    by simp_all
  have n: "1 < length (positions s1)" "2 < length (positions s1)"
    using assms(3) len by simp_all
  let ?s = "s1\<lparr>initial_separation := vnorm (vsub (positions s1 ! 1) (positions s1 ! 2))\<rparr>"
  have run: "init_with ms ps vs = Inr ?s"
    unfolding init_with_def s0_def [symmetric] using adj n by simp
  have fields: "masses ?s = map (\<lambda>m. m * MASS_SCALE) ms"
    "positions ?s = map (\<lambda>p. vsub (smul DISTANCE_SCALE p) cp) ps"
    "velocities ?s = map (\<lambda>v. vsub (smul (sqrt (G_scaled * MASS_SCALE / DISTANCE_SCALE)) v) cv) vs"
    by (simp_all add: s1_def s0_def)
  show ?thesis
    using run fields sums by (intro exI [of _ ?s] exI [of _ cp] exI [of _ cv]) simp
qed

theorem center_of_mass_zero_after_construction_witness:
  "\<exists>s cp. init = Inr s \<and>
       masses s = [1.0 * MASS_SCALE, 0.1 * MASS_SCALE, 0.05 * MASS_SCALE] \<and>
       positions s = [vsub (smul DISTANCE_SCALE (0.0, 0.0)) cp,
                      vsub (smul DISTANCE_SCALE (1.5, 0.0)) cp,
                      vsub (smul DISTANCE_SCALE (0.75, 1.3)) cp] \<and>
       (\<Sum>i<3. masses s ! i * fst (positions s ! i)) = 0 \<and>
       (\<Sum>i<3. masses s ! i * snd (positions s ! i)) = 0 \<and>
       (\<Sum>i<3. masses s ! i * fst (velocities s ! i)) = 0 \<and>
       (\<Sum>i<3. masses s ! i * snd (velocities s ! i)) = 0"
proof -
  have "\<exists>s cp cv. init_with [1.0, 0.1, 0.05] [(0.0, 0.0), (1.5, 0.0), (0.75, 1.3)]
                    [(0.0, 1.0), (0.0, - 3.0), (- 2.5, 1.5)] = Inr s \<and>
           masses s = map (\<lambda>m. m * MASS_SCALE) [1.0, 0.1, 0.05] \<and>
           positions s = map (\<lambda>p. vsub (smul DISTANCE_SCALE p) cp) [(0.0, 0.0), (1.5, 0.0), (0.75, 1.3)] \<and>
           velocities s = map (\<lambda>v. vsub (smul (sqrt (G_scaled * MASS_SCALE / DISTANCE_SCALE)) v) cv)
                             [(0.0, 1.0), (0.0, - 3.0), (- 2.5, 1.5)] \<and>
           (\<Sum>i<length [1.0, 0.1, 0.05 :: real]. masses s ! i * fst (positions s ! i)) = 0 \<and>
           (\<Sum>i<length [1.0, 0.1, 0.05 :: real]. masses s ! i * snd (positions s ! i)) = 0 \<and>
           (\<Sum>i<length [1.0, 0.1, 0.05 :: real]. masses s ! i * fst (velocities s ! i)) = 0 \<and>
           (\<Sum>i<length [1.0, 0.1, 0.05 :: real]. masses s ! i * snd (velocities s ! i)) = 0"
    by (rule center_of_mass_zero_after_construction) simp_all
  then obtain s cp where
    "init = Inr s" "masses s = map (\<lambda>m. m * MASS_SCALE) [1.0, 0.1, 0.05]"
    "positions s = map (\<lambda>p. vsub (smul DISTANCE_SCALE p) cp) [(0.0, 0.0), (1.5, 0.0), (0.75, 1.3)]"
    "(\<Sum>i<length [1.0, 0.1, 0.05 :: real]. masses s ! i * fst (positions s ! i)) = 0"
    "(\<Sum>i<length [1.0, 0.1, 0.05 :: real]. masses s ! i * snd (positions s ! i)) = 0"
    "(\<Sum>i<length [1.0, 0.1, 0.05 :: real]. masses s ! i * fst (velocities s ! i)) = 0"
    "(\<Sum>i<length [1.0, 0.1, 0.05 :: real]. masses s ! i * snd (velocities s ! i)) = 0"
    unfolding init_def by blast
  then have "init = Inr s \<and>
       masses s = [1.0 * MASS_SCALE, 0.1 * MASS_SCALE, 0.05 * MASS_SCALE] \<and>
       positions s = [vsub (smul DISTANCE_SCALE (0.0, 0.0)) cp,
                      vsub (smul DISTANCE_SCALE (1.5, 0.0)) cp,
                      vsub (smul DISTANCE_SCALE (0.75, 1.3)) cp] \<and>
       (\<Sum>i<3. masses s ! i * fst (positions s ! i)) = 0 \<and>
       (\<Sum>i<3. masses s ! i * snd (positions s ! i)) = 0 \<and>
       (\<Sum>i<3. masses s ! i * fst (velocities s ! i)) = 0 \<and>
       (\<Sum>i<3. masses s ! i * snd (velocities s ! i)) = 0"
    by (simp add: eval_nat_numeral lessThan_Suc)
  then show ?thesis by blast
qed

subsection \<open>The force model\<close>

lemma softening_pos: "0 < softening"
  by (simp add: softening_def DISTANCE_SCALE_def AU_def)

lemma G_scaled_pos: "0 < G_scaled"
  by (simp add: G_scaled_def G_def MASS_SCALE_def SOLAR_MASS_def TIME_SCALE_def DAY_def
      DISTANCE_SCALE_def AU_def)

lemma vnorm_nonneg: "0 \<le> vnorm a"
  by (simp add: vnorm_def)

lemma distance_softened_pos: "0 < distance_softened r"
proof -
  have "0 < softening ^ 2" using softening_pos by simp
  moreover have "0 \<le> (vnorm r) ^ 2" by simp
  ultimately have "0 < (vnorm r) ^ 2 + softening ^ 2" by linarith
  then show ?thesis by (simp add: distance_softened_def)
qed

lemma distance_softened_cube_nonzero: "(distance_softened r) ^ 3 \<noteq> 0"
  using distance_softened_pos [of r] by simp

lemma pair_acceleration_eq:
  assumes "i < length ps" and "j < length ps" and "j < length ms"
  shows "pair_acceleration ms ps i j = Inr (accel_term ms ps i j)"
  using assms distance_softened_cube_nonzero
  by (simp add: pair_acceleration_def accel_term_def fdiv_def Let_def distance_softened_def)

lemma vadd_zero [simp]: "vadd a (0, 0) = a"
  by (simp add: vadd_def)

lemma vadd_sum_rows_Cons: "vadd (vadd a d) (np_sum_rows xs) = vadd a (np_sum_rows (d # xs))"
  by (simp add: vadd_def np_sum_rows_def)

lemma np_sum_rows_Nil [simp]: "np_sum_rows [] = (0, 0)"
  by (simp add: np_sum_rows_def)

lemma accel_inner_eq:
  assumes "i < length acc" and "i < length (positions s)"
    and "\<forall>j\<in>set js. j < length (positions s) \<and> j < length (masses s)"
  shows "accel_inner s i js acc =
     Inr (acc[i := vadd (acc ! i)
            (np_sum_rows (map (accel_term (masses s) (positions s) i) (filter (\<lambda>j. j \<noteq> i) js)))])"
  using assms
proof (induction js arbitrary: acc)
  case Nil
  then show ?case by simp
next
  case (Cons j js)
  show ?case
  proof (cases "i = j")
    case True
    then show ?thesis using Cons by simp
  next
    case False
    have pa: "pair_acceleration (masses s) (positions s) i j = Inr (accel_term (masses s) (positions s) i j)"
      using Cons.prems by (simp add: pair_acceleration_eq)
    let ?acc' = "acc[i := vadd (acc ! i) (accel_term (masses s) (positions s) i j)]"
    have "accel_inner s i js ?acc' =
       Inr (?acc'[i := vadd (?acc' ! i)
            (np_sum_rows (map (accel_term (masses s) (positions s) i) (filter (\<lambda>j. j \<noteq> i) js)))])"
      using Cons.prems by (intro Cons.IH) simp_all
    then show ?thesis
      using False Cons.prems(1) pa by (simp add: vadd_sum_rows_Cons)
  qed
qed

lemma accel_outer_eq:
  assumes "length acc = n" and "n = length (positions s)" and "n \<le> length (masses s)"
    and "set ks \<subseteq> {..<n}" and "distinct ks"
  shows "accel_outer s n ks acc =
     Inr (map (\<lambda>i. if i \<in> set ks
                    then vadd (acc ! i) (np_sum_rows (map (accel_term (masses s) (positions s) i)
                                            (filter (\<lambda>j. j \<noteq> i) [0..<n])))
                    else acc ! i) [0..<n])"
  using assms
proof (induction ks arbitrary: acc)
  case Nil
  have "map ((!) acc) [0..<length acc] = acc" by (rule map_nth)
  then show ?case using Nil by simp
next
  case (Cons i ks)
  let ?t = "\<lambda>i. np_sum_rows (map (accel_term (masses s) (positions s) i) (filter (\<lambda>j. j \<noteq> i) [0..<n]))"
  let ?acc' = "acc[i := vadd (acc ! i) (?t i)]"
  have i: "i < n" "i \<notin> set ks" using Cons.prems by auto
  have inner: "accel_inner s i [0..<n] acc = Inr ?acc'"
    using Cons.prems i by (intro accel_inner_eq) auto
  have "accel_outer s n ks ?acc' =
     Inr (map (\<lambda>k. if k \<in> set ks then vadd (?acc' ! k) (?t k) else ?acc' ! k) [0..<n])"
    using Cons.prems by (intro Cons.IH) auto
  also have "map (\<lambda>k. if k \<in> set ks then vadd (?acc' ! k) (?t k) else ?acc' ! k) [0..<n] =
             map (\<lambda>k. if k \<in> set (i # ks) then vadd (acc ! k) (?t k) else acc ! k) [0..<n]"
    using i Cons.prems(1) by (intro map_cong) (auto simp: nth_list_update)
  finally show ?case
    using inner by simp
qed

lemma compute_accelerations_eq:
  assumes "length (positions s) \<le> length (masses s)"
  shows "compute_accelerations s = Inr (accel (masses s) (positions s))"
proof -
  let ?n = "length (positions s)"
  have "accel_outer s ?n [0..<?n] (replicate ?n (0, 0)) =
     Inr (map (\<lambda>i. if i \<in> set [0..<?n]
                    then vadd (replicate ?n (0, 0) ! i) (np_sum_rows (map (accel_term (masses s) (positions s) i)
                                            (filter (\<lambda>j. j \<noteq> i) [0..<?n])))
                    else replicate ?n (0, 0) ! i) [0..<?n])"
    using assms by (intro accel_outer_eq) auto
  also have "map (\<lambda>i. if i \<in> set [0..<?n]
                    then vadd (replicate ?n (0, 0) ! i) (np_sum_rows (map (accel_term (masses s) (positions s) i)
                                            (filter (\<lambda>j. j \<noteq> i) [0..<?n])))
                    else replicate ?n (0, 0) ! i) [0..<?n] = accel (masses s) (positions s)"
    unfolding accel_def by (intro map_cong) (auto simp: vadd_def)
  finally show ?thesis
    by (simp add: compute_accelerations_def)
qed

lemma length_accel [simp]: "length (accel ms ps) = length ps"
  by (simp add: accel_def)

subsection \<open>Softening and Newton's third law\<close>

lemma vnorm_smul: "vnorm (smul c r) = \<bar>c\<bar> * vnorm r"
proof -
  have "(c * fst r) ^ 2 + (c * snd r) ^ 2 = c ^ 2 * ((fst r) ^ 2 + (snd r) ^ 2)"
    by (simp add: algebra_simps)
  then show ?thesis
    by (simp add: vnorm_def smul_def real_sqrt_mult)
qed

lemma vnorm_vsub_commute: "vnorm (vsub a b) = vnorm (vsub b a)"
  by (simp add: vnorm_def vsub_def power2_commute)

lemma vnorm_le_distance_softened: "vnorm r \<le> distance_softened r"
proof -
  have "(vnorm r) ^ 2 \<le> (vnorm r) ^ 2 + softening ^ 2" by simp
  then have "sqrt ((vnorm r) ^ 2) \<le> distance_softened r"
    unfolding distance_softened_def by (rule real_sqrt_le_mono)
  then show ?thesis using vnorm_nonneg [of r] by simp
qed

lemma softening_le_distance_softened: "softening \<le> distance_softened r"
proof -
  have "softening ^ 2 \<le> (vnorm r) ^ 2 + softening ^ 2" by simp
  then have "sqrt (softening ^ 2) \<le> distance_softened r"
    unfolding distance_softened_def by (rule real_sqrt_le_mono)
  then show ?thesis using softening_pos by simp
qed

lemma softened_ratio_bound: "vnorm r / (distance_softened r) ^ 3 \<le> 1 / softening ^ 2"
proof -
  let ?d = "distance_softened r"
  have d: "0 < ?d" by (rule distance_softened_pos)
  have "vnorm r / ?d ^ 3 \<le> ?d / ?d ^ 3"
    using vnorm_le_distance_softened [of r] d by (simp add: divide_right_mono)
  also have "\<dots> = 1 / ?d ^ 2"
    using d by (simp add: power3_eq_cube power2_eq_square)
  also have "\<dots> \<le> 1 / softening ^ 2"
  proof -
    have "softening ^ 2 \<le> ?d ^ 2"
      using softening_le_distance_softened [of r] softening_pos by (simp add: power_mono)
    moreover have "0 < softening ^ 2" using softening_pos by simp
    ultimately show ?thesis by (simp add: frac_le)
  qed
  finally show ?thesis .
qed

lemma accel_term_norm:
  "vnorm (accel_term ms ps i j) =
     G_scaled * \<bar>ms ! j\<bar> * vnorm (vsub (ps ! j) (ps ! i)) / (distance_softened (vsub (ps ! j) (ps ! i))) ^ 3"
proof -
  let ?r = "vsub (ps ! j) (ps ! i)"
  have "accel_term ms ps i j = smul (G_scaled * (ms ! j) / (distance_softened ?r) ^ 3) ?r"
    by (simp add: accel_term_def distance_softened_def Let_def)
  then show ?thesis
    using G_scaled_pos distance_softened_pos [of ?r]
    by (simp add: vnorm_smul abs_mult)
qed

lemma accel_term_bound:
  "vnorm (accel_term ms ps i j) \<le> G_scaled * \<bar>ms ! j\<bar> / softening ^ 2"
proof -
  let ?r = "vsub (ps ! j) (ps ! i)"
  have "vnorm (accel_term ms ps i j) = (G_scaled * \<bar>ms ! j\<bar>) * (vnorm ?r / (distance_softened ?r) ^ 3)"
    by (simp add: accel_term_norm)
  also have "\<dots> \<le> (G_scaled * \<bar>ms ! j\<bar>) * (1 / softening ^ 2)"
    using G_scaled_pos by (intro mult_left_mono softened_ratio_bound) simp
  finally show ?thesis by simp
qed

text \<open>
  Claim C5. With the softening length \<open>1e-4 * DISTANCE_SCALE\<close>,
  \<^verbatim>\<open>compute_accelerations\<close> returns for every simulator that has a mass for each
  position, coincident positions included: the denominator \<open>distance_softened ^ 3\<close> is
  never zero, and the magnitude of each pairwise contribution,
  \<open>G_scaled * |mass[j]| * |r| / distance_softened ^ 3\<close>, is at most
  \<open>G_scaled * |mass[j]| / softening ^ 2\<close>.
\<close>

theorem softening_total_and_bounded:
  assumes "length (positions s) \<le> length (masses s)"
  shows "softening = 1 / 10 ^ 4 * DISTANCE_SCALE \<and>
    (\<exists>acc. compute_accelerations s = Inr acc \<and> length acc = length (positions s)) \<and>
    (\<forall>i<length (positions s). \<forall>j<length (positions s).
       distance_softened (vsub (positions s ! j) (positions s ! i)) ^ 3 \<noteq> 0 \<and>
       (\<exists>a. pair_acceleration (masses s) (positions s) i j = Inr a \<and>
            vnorm a = G_scaled * \<bar>masses s ! j\<bar> * vnorm (vsub (positions s ! j) (positions s ! i))
                        / distance_softened (vsub (positions s ! j) (positions s ! i)) ^ 3 \<and>
            vnorm a \<le> G_scaled * \<bar>masses s ! j\<bar> / softening ^ 2))"
proof (intro conjI allI impI)
  show "softening = 1 / 10 ^ 4 * DISTANCE_SCALE"
    by (simp add: softening_def)
  show "\<exists>acc. compute_accelerations s = Inr acc \<and> length acc = length (positions s)"
    using assms by (simp add: compute_accelerations_eq)
next
  fix i j
  assume "i < length (positions s)" and "j < length (positions s)"
  show "distance_softened (vsub (positions s ! j) (positions s ! i)) ^ 3 \<noteq> 0"
    by (rule distance_softened_cube_nonzero)
next
  fix i j
  assume ij: "i < length (positions s)" "j < length (positions s)"
  then have "pair_acceleration (masses s) (positions s) i j = Inr (accel_term (masses s) (positions s) i j)"
    using assms by (simp add: pair_acceleration_eq)
  then show "\<exists>a. pair_acceleration (masses s) (positions s) i j = Inr a \<and>
            vnorm a = G_scaled * \<bar>masses s ! j\<bar> * vnorm (vsub (positions s ! j) (positions s ! i))
                        / distance_softened (vsub (positions s ! j) (positions s ! i)) ^ 3 \<and>
            vnorm a \<le> G_scaled * \<bar>masses s ! j\<bar> / softening ^ 2"
    using accel_term_norm [of "masses s" "positions s" i j]
      accel_term_bound [of "masses s" "positions s" i j]
    by blast
qed

theorem softening_total_and_bounded_witness:
  "(\<exists>acc. compute_accelerations (sample_state\<lparr>positions := [(0, 0), (0, 0), (0, 4)]\<rparr>) = Inr acc) \<and>
   (\<exists>a. pair_acceleration [2, 1, 1] [(0, 0), (0, 0), (0, 4)] 0 1 = Inr a \<and>
        vnorm a \<le> G_scaled * 1 / softening ^ 2)"
proof -
  let ?s = "sample_state\<lparr>positions := [(0, 0), (0, 0), (0, 4)]\<rparr>"
  have len: "length (positions ?s) \<le> length (masses ?s)"
    by (simp add: sample_state_def)
  note th = softening_total_and_bounded [OF len]
  have total: "\<exists>acc. compute_accelerations ?s = Inr acc"
    using th by blast
  have "0 < length (positions ?s)" and "1 < length (positions ?s)"
    by simp_all
  with th have "\<exists>a. pair_acceleration (masses ?s) (positions ?s) 0 1 = Inr a \<and>
      vnorm a \<le> G_scaled * \<bar>masses ?s ! 1\<bar> / softening ^ 2"
    by blast
  then have "\<exists>a. pair_acceleration [2, 1, 1] [(0, 0), (0, 0), (0, 4)] 0 1 = Inr a \<and>
      vnorm a \<le> G_scaled * 1 / softening ^ 2"
    by (simp add: sample_state_def)
  with total show ?thesis by blast
qed

text \<open>
  Claim C4. For two distinct bodies \<open>i\<close> and \<open>j\<close>, the force on \<open>i\<close> due to \<open>j\<close>, that
  is \<open>mass[i]\<close> times the contribution the inner loop of \<^verbatim>\<open>compute_accelerations\<close>
  adds to row \<open>i\<close> for the pair, is equal and opposite to the force on \<open>j\<close> due to \<open>i\<close>.
\<close>

theorem newtons_third_law:
  assumes "i < length ps" and "j < length ps" and "i < length ms" and "j < length ms"
    and "i \<noteq> j"
  shows "\<exists>a b. pair_acceleration ms ps i j = Inr a \<and> pair_acceleration ms ps j i = Inr b \<and>
           smul (ms ! i) a = smul (- 1) (smul (ms ! j) b)"
proof -
  have d: "distance_softened (vsub (ps ! j) (ps ! i)) = distance_softened (vsub (ps ! i) (ps ! j))"
    by (simp add: distance_softened_def vnorm_vsub_commute)
  have "smul (ms ! i) (accel_term ms ps i j) = smul (- 1) (smul (ms ! j) (accel_term ms ps j i))"
    using d by (simp add: accel_term_def Let_def smul_def vsub_def distance_softened_def algebra_simps)
  then show ?thesis
    using assms by (simp add: pair_acceleration_eq)
qed

theorem newtons_third_law_witness:
  "\<exists>a b. pair_acceleration [2, 1, 1] [(0, 0), (3, 0), (0, 4)] 1 2 = Inr a \<and>
         pair_acceleration [2, 1, 1] [(0, 0), (3, 0), (0, 4)] 2 1 = Inr b \<and>
         smul ([2, 1, 1] ! 1) a = smul (- 1) (smul ([2, 1, 1] ! 2) b)"
  by (rule newtons_third_law) simp_all

subsection \<open>The derivatives helper\<close>

lemma map2_second: "length xs = length ys \<Longrightarrow> map2 (\<lambda>old new. new) xs ys = ys"
  by (induction xs ys rule: list_induct2) simp_all

lemma np_assign_same: "length ys = length xs \<Longrightarrow> np_assign xs ys = Inr ys"
  by (simp add: np_assign_def np_inplace_def map2_second)

lemma np_assign_length: "np_assign xs ys = Inr zs \<Longrightarrow> length zs = length xs"
  by (auto simp: np_assign_def np_inplace_def split: if_splits)

lemma np_add_same: "length xs = length ys \<Longrightarrow> np_add xs ys = Inr (arr_add xs ys)"
  by (simp add: np_add_def np_broadcast_def arr_add_def)

lemma np_iadd_same: "length ys = length xs \<Longrightarrow> np_iadd xs ys = Inr (arr_add xs ys)"
  by (simp add: np_iadd_def np_inplace_def arr_add_def)

lemma length_np_scale [simp]: "length (np_scale c xs) = length xs"
  by (simp add: np_scale_def)

lemma length_arr_add [simp]: "length (arr_add xs ys) = min (length xs) (length ys)"
  by (simp add: arr_add_def)

lemma derivatives_restores:
  assumes "derivatives s pos vel = Inr (s', v, a)"
  shows "s' = s \<and> v = vel"
proof (cases "np_assign (positions s) pos")
  case (Inl e)
  with assms show ?thesis by (simp add: derivatives_def)
next
  case (Inr trial)
  then have len: "length (positions s) = length trial"
    by (simp add: np_assign_length)
  show ?thesis
  proof (cases "compute_accelerations (s\<lparr>positions := trial\<rparr>)")
    case (Inl e)
    with assms Inr show ?thesis by (simp add: derivatives_def)
  next
    case (Inr acc)
    with assms \<open>np_assign (positions s) pos = Inr trial\<close> len show ?thesis
      by (auto simp: derivatives_def np_assign_same)
  qed
qed

lemma derivatives_eq:
  assumes "length pos = length (positions s)" and "length (positions s) \<le> length (masses s)"
  shows "derivatives s pos vel = Inr (s, vel, accel (masses s) pos)"
proof -
  have "compute_accelerations (s\<lparr>positions := pos\<rparr>) = Inr (accel (masses s) pos)"
    using assms compute_accelerations_eq [of "s\<lparr>positions := pos\<rparr>"] by simp
  then show ?thesis
    using assms by (simp add: derivatives_def np_assign_same)
qed

lemma derivatives_trial:
  assumes "derivatives s pos vel = Inr (s', v, a)" and "length pos = length (positions s)"
  shows "compute_accelerations (s\<lparr>positions := pos\<rparr>) = Inr a"
proof (cases "compute_accelerations (s\<lparr>positions := pos\<rparr>)")
  case (Inl e)
  with assms show ?thesis by (simp add: derivatives_def np_assign_same)
next
  case (Inr acc)
  with assms show ?thesis by (simp add: derivatives_def np_assign_same)
qed

text \<open>
  Claim C2. Whenever \<^verbatim>\<open>derivatives\<close> returns, the simulator is the one it was called
  on, field for field, and the returned velocity derivative is the acceleration computed
  with the trial positions \<open>pos\<close> in place of the stored ones; it does return, with the
  acceleration field \<open>accel\<close> at \<open>pos\<close>, whenever \<open>pos\<close> has as many rows as the stored
  positions and every position has a mass.
\<close>

theorem derivatives_leaves_state_unchanged:
  "(\<forall>s' v a. derivatives s pos vel = Inr (s', v, a) \<longrightarrow>
      s' = s \<and> v = vel \<and>
      (length pos = length (positions s) \<longrightarrow> compute_accelerations (s\<lparr>positions := pos\<rparr>) = Inr a)) \<and>
   (length pos = length (positions s) \<and> length (positions s) \<le> length (masses s) \<longrightarrow>
      derivatives s pos vel = Inr (s, vel, accel (masses s) pos))"
  using derivatives_restores derivatives_trial derivatives_eq by blast

theorem derivatives_leaves_state_unchanged_witness:
  "derivatives sample_state [(1, 1), (2, 2), (3, 3)] [(0, 0), (7, 7), (0, 0)] =
     Inr (sample_state, [(0, 0), (7, 7), (0, 0)], accel [2, 1, 1] [(1, 1), (2, 2), (3, 3)]) \<and>
   compute_accelerations (sample_state\<lparr>positions := [(1, 1), (2, 2), (3, 3)]\<rparr>) =
     Inr (accel [2, 1, 1] [(1, 1), (2, 2), (3, 3)])"
proof -
  let ?pos = "[(1, 1), (2, 2), (3, 3)] :: vec list"
  let ?vel = "[(0, 0), (7, 7), (0, 0)] :: vec list"
  note th = derivatives_leaves_state_unchanged [of sample_state ?pos ?vel]
  have shape: "length ?pos = length (positions sample_state) \<and>
      length (positions sample_state) \<le> length (masses sample_state)"
    by (simp add: sample_state_def)
  with th have d: "derivatives sample_state ?pos ?vel =
      Inr (sample_state, ?vel, accel (masses sample_state) ?pos)"
    by blast
  with th shape have "compute_accelerations (sample_state\<lparr>positions := ?pos\<rparr>) =
      Inr (accel (masses sample_state) ?pos)"
    by blast
  with d show ?thesis
    by (simp add: sample_state_def)
qed

subsection \<open>The Runge-Kutta step\<close>

lemma rk4_step_eq:
  assumes "length (velocities s) = length (positions s)"
    and "length (positions s) \<le> length (masses s)"
  shows "rk4_step s =
     Inr (s\<lparr>positions := rk4_positions (dt s) (masses s) (positions s) (velocities s),
            velocities := rk4_velocities (dt s) (masses s) (positions s) (velocities s),
            time := time s + dt s\<rparr>)"
  using assms
  by (simp add: rk4_step_def derivatives_eq np_add_same np_iadd_same
      rk4_positions_def rk4_velocities_def rk4_k1_def rk4_k2_def rk4_k3_def rk4_k4_def Let_def)

subsection \<open>The chaos analysis and the whole step\<close>

lemma np_log_all_positive: "\<forall>x\<in>set xs. 0 < x \<Longrightarrow> np_log_all xs = Inr (map ln xs)"
  by (induction xs) (simp_all add: np_log_def)

lemma length_np_diff [simp]: "length (np_diff xs) = length xs - 1"
  by (simp add: np_diff_def)

lemma np_mean_diff_logs:
  assumes "5 < length xs"
  shows "np_mean (np_diff (map ln xs)) = Inr (mean_log_growth xs)"
  using assms by (simp add: np_mean_def fdiv_def mean_log_growth_def)

lemma lyapunov_branch:
  assumes "0 < eps" and "5 < length (filter (\<lambda>x. x > eps) xs)"
  shows "ebind (np_log_all (filter (\<lambda>x. x > eps) xs)) (\<lambda>logs. ebind (np_mean (np_diff logs)) f)
           = f (mean_log_growth (filter (\<lambda>x. x > eps) xs))"
proof -
  have "\<forall>x\<in>set (filter (\<lambda>x. x > eps) xs). 0 < x"
    using assms(1) by auto
  then have "np_log_all (filter (\<lambda>x. x > eps) xs) = Inr (map ln (filter (\<lambda>x. x > eps) xs))"
    by (rule np_log_all_positive)
  then show ?thesis
    using assms(2) by (simp add: np_mean_diff_logs)
qed

lemma analyze_chaos_eq:
  assumes "2 < length (positions s)" and "initial_separation s \<noteq> 0"
  shows "analyze_chaos s =
     Inr (s\<lparr>chaos_times := deque_append (chaos_times s) (time s / (DAY * 365.25)),
            chaos_separations := deque_append (chaos_separations s)
               (vnorm (vsub (positions s ! 1) (positions s ! 2)) / initial_separation s),
            chaos_lyapunov := deque_append (chaos_lyapunov s)
               (lyapunov_estimate (items (deque_append (chaos_separations s)
                  (vnorm (vsub (positions s ! 1) (positions s ! 2)) / initial_separation s))))\<rparr>)"
proof -
  define eps :: real where "eps = 1 / 10 ^ 10"
  have eps: "0 < eps" by (simp add: eps_def)
  define years where "years = time s / (DAY * 365.25)"
  show ?thesis
    unfolding analyze_chaos_def lyapunov_estimate_def eps_def [symmetric] years_def [symmetric]
    using assms eps by (simp add: fdiv_def Let_def lyapunov_branch)
qed

lemma analyze_chaos_zero_separation:
  assumes "2 < length (positions s)" and "initial_separation s = 0"
  shows "analyze_chaos s = Inl ZeroDivide"
  using assms by (simp add: analyze_chaos_def fdiv_def Let_def)

lemma store_trajectories_total:
  assumes "\<forall>i\<in>set ks. i < length tr \<and> i < length ps"
  shows "\<exists>tr'. store_trajectories ps ks tr = Inr tr' \<and> length tr' = length tr"
  using assms
proof (induction ks arbitrary: tr)
  case Nil
  then show ?case by simp
next
  case (Cons i ks)
  have "\<exists>tr'. store_trajectories ps ks (tr[i := deque_append (tr ! i) (ps ! i)]) = Inr tr' \<and>
           length tr' = length (tr[i := deque_append (tr ! i) (ps ! i)])"
    using Cons.prems by (intro Cons.IH) simp
  then show ?case using Cons.prems by simp
qed

lemma update_system_eq:
  assumes "three_bodies s"
  shows "\<exists>tr. length tr = 3 \<and> update_system s =
     analyze_chaos (s\<lparr>positions := rk4_positions (dt s) (masses s) (positions s) (velocities s),
            velocities := rk4_velocities (dt s) (masses s) (positions s) (velocities s),
            time := time s + dt s, trajectories := tr\<rparr>)"
proof -
  let ?p = "rk4_positions (dt s) (masses s) (positions s) (velocities s)"
  have shape: "length (velocities s) = length (positions s)" "length (positions s) \<le> length (masses s)"
    "length (positions s) = 3" "length (trajectories s) = 3"
    using assms by (simp_all add: three_bodies_def)
  have len: "length ?p = 3"
    using shape by (simp add: rk4_positions_def rk4_k1_def rk4_k2_def rk4_k3_def rk4_k4_def Let_def)
  have "\<exists>tr'. store_trajectories ?p [0..<length ?p] (trajectories s) = Inr tr' \<and>
          length tr' = length (trajectories s)"
    using len shape by (intro store_trajectories_total) simp
  then obtain tr where "store_trajectories ?p [0..<length ?p] (trajectories s) = Inr tr"
    and "length tr = 3" using shape by auto
  then show ?thesis
    using shape by (intro exI [of _ tr]) (simp add: update_system_def rk4_step_eq)
qed

text \<open>
  Claim C1. For a simulator of three bodies, lines 98 to 109 of \<^verbatim>\<open>update_system\<close>
  perform one classical Runge-Kutta step: the new positions are
  \<open>pos + (dt/6) (k1.pos + 2 k2.pos + 2 k3.pos + k4.pos)\<close>, the new velocities
  \<open>vel + (dt/6) (k1.vel + 2 k2.vel + 2 k3.vel + k4.vel)\<close> with the stages \<open>rk4_k1\<close> to
  \<open>rk4_k4\<close>, and the time grows by \<open>dt\<close>. The whole call returns a simulator with these
  positions, velocities and time when the initial separation, by which
  \<^verbatim>\<open>analyze_chaos\<close> divides, is not zero.
\<close>

theorem update_system_is_rk4_step:
  assumes "three_bodies s"
  shows "(\<exists>s1. rk4_step s = Inr s1 \<and>
            positions s1 = rk4_positions (dt s) (masses s) (positions s) (velocities s) \<and>
            velocities s1 = rk4_velocities (dt s) (masses s) (positions s) (velocities s) \<and>
            time s1 = time s + dt s) \<and>
         (initial_separation s \<noteq> 0 \<longrightarrow>
            (\<exists>s'. update_system s = Inr s' \<and>
               positions s' = rk4_positions (dt s) (masses s) (positions s) (velocities s) \<and>
               velocities s' = rk4_velocities (dt s) (masses s) (positions s) (velocities s) \<and>
               time s' = time s + dt s))"
proof (intro conjI impI)
  have shape: "length (velocities s) = length (positions s)" "length (positions s) \<le> length (masses s)"
    using assms by (simp_all add: three_bodies_def)
  show "\<exists>s1. rk4_step s = Inr s1 \<and>
            positions s1 = rk4_positions (dt s) (masses s) (positions s) (velocities s) \<and>
            velocities s1 = rk4_velocities (dt s) (masses s) (positions s) (velocities s) \<and>
            time s1 = time s + dt s"
    using shape by (simp add: rk4_step_eq)
next
  assume sep: "initial_separation s \<noteq> 0"
  let ?p = "rk4_positions (dt s) (masses s) (positions s) (velocities s)"
  let ?v = "rk4_velocities (dt s) (masses s) (positions s) (velocities s)"
  obtain tr where upd: "update_system s =
      analyze_chaos (s\<lparr>positions := ?p, velocities := ?v, time := time s + dt s, trajectories := tr\<rparr>)"
    using update_system_eq [OF assms] by blast
  have "length ?p = 3"
    using assms
    by (simp add: three_bodies_def rk4_positions_def rk4_k1_def rk4_k2_def rk4_k3_def rk4_k4_def Let_def)
  then have "2 < length (positions (s\<lparr>positions := ?p, velocities := ?v, time := time s + dt s, trajectories := tr\<rparr>))"
    by simp
  moreover have "initial_separation (s\<lparr>positions := ?p, velocities := ?v, time := time s + dt s, trajectories := tr\<rparr>) \<noteq> 0"
    using sep by simp
  ultimately show "\<exists>s'. update_system s = Inr s' \<and> positions s' = ?p \<and> velocities s' = ?v \<and>
      time s' = time s + dt s"
    unfolding upd by (simp add: analyze_chaos_eq)
qed

theorem update_system_is_rk4_step_witness:
  "(\<exists>s1. rk4_step sample_state = Inr s1 \<and>
      positions s1 = rk4_positions 1 [2, 1, 1] [(0, 0), (3, 0), (0, 4)] [(0, 0), (0, 1), (1, 0)] \<and>
      velocities s1 = rk4_velocities 1 [2, 1, 1] [(0, 0), (3, 0), (0, 4)] [(0, 0), (0, 1), (1, 0)] \<and>
      time s1 = 1) \<and>
   (\<exists>s'. update_system sample_state = Inr s' \<and>
      positions s' = rk4_positions 1 [2, 1, 1] [(0, 0), (3, 0), (0, 4)] [(0, 0), (0, 1), (1, 0)] \<and>
      velocities s' = rk4_velocities 1 [2, 1, 1] [(0, 0), (3, 0), (0, 4)] [(0, 0), (0, 1), (1, 0)] \<and>
      time s' = 1)"
proof -
  have three: "three_bodies sample_state"
    by (simp add: three_bodies_def sample_state_def)
  have sep: "initial_separation sample_state \<noteq> 0"
    by (simp add: sample_state_def)
  have fields: "dt sample_state = 1" "time sample_state = 0" "masses sample_state = [2, 1, 1]"
    "positions sample_state = [(0, 0), (3, 0), (0, 4)]"
    "velocities sample_state = [(0, 0), (0, 1), (1, 0)]"
    by (simp_all add: sample_state_def)
  show ?thesis
    using update_system_is_rk4_step [OF three] sep unfolding fields by simp
qed

lemma deque_append_items:
  "0 < maxlen d \<Longrightarrow>
   items (deque_append d x) = drop (length (items d) + 1 - maxlen d) (items d) @ [x]"
  by (simp add: deque_append_def)

text \<open>
  Claim C7, as amended. One call of \<^verbatim>\<open>analyze_chaos\<close> appends one item to each of
  the three series: the time in years, the separation of bodies 2 and 3 divided by the
  initial separation, and \<open>lyapunov_estimate\<close> of the separation series after the append,
  which is 0 for a series of 10 or fewer samples, and otherwise keeps the samples
  strictly above \<open>1e-10\<close> (a sample equal to \<open>1e-10\<close> is removed) and is the mean
  difference of their logarithms when more than 5 are kept, and 0 when not.
\<close>

theorem analyze_chaos_appends_one_record:
  assumes "2 < length (positions s)" and "initial_separation s \<noteq> 0"
  shows "analyze_chaos s =
     Inr (s\<lparr>chaos_times := deque_append (chaos_times s) (time s / (DAY * 365.25)),
            chaos_separations := deque_append (chaos_separations s)
               (vnorm (vsub (positions s ! 1) (positions s ! 2)) / initial_separation s),
            chaos_lyapunov := deque_append (chaos_lyapunov s)
               (lyapunov_estimate (items (deque_append (chaos_separations s)
                  (vnorm (vsub (positions s ! 1) (positions s ! 2)) / initial_separation s))))\<rparr>)"
  using assms by (rule analyze_chaos_eq)

theorem analyze_chaos_appends_one_record_witness:
  "analyze_chaos boundary_state = Inr boundary_result"
proof -
  have "2 < length (positions boundary_state)" and "initial_separation boundary_state \<noteq> 0"
    by (simp_all add: boundary_state_def sample_state_def)
  then have "analyze_chaos boundary_state =
     Inr (boundary_state\<lparr>chaos_times := deque_append (chaos_times boundary_state) (time boundary_state / (DAY * 365.25)),
            chaos_separations := deque_append (chaos_separations boundary_state)
               (vnorm (vsub (positions boundary_state ! 1) (positions boundary_state ! 2)) / initial_separation boundary_state),
            chaos_lyapunov := deque_append (chaos_lyapunov boundary_state)
               (lyapunov_estimate (items (deque_append (chaos_separations boundary_state)
                  (vnorm (vsub (positions boundary_state ! 1) (positions boundary_state ! 2)) / initial_separation boundary_state))))\<rparr>)"
    by (rule analyze_chaos_appends_one_record)
  also have "\<dots> = Inr boundary_result"
    by (simp add: boundary_result_def boundary_state_def sample_state_def deque_append_def
        lyapunov_estimate_def vnorm_def vsub_def)
  finally show ?thesis .
qed

lemma analyze_chaos_boundary: "analyze_chaos boundary_state = Inr boundary_result"
proof -
  have "2 < length (positions boundary_state)" and "initial_separation boundary_state \<noteq> 0"
    by (simp_all add: boundary_state_def sample_state_def)
  then show ?thesis
    by (simp add: analyze_chaos_eq)
      (simp add: boundary_result_def boundary_state_def sample_state_def deque_append_def
        lyapunov_estimate_def vnorm_def vsub_def)
qed

lemma ln_tenth_power: "ln (1 / 10 ^ 10 :: real) = - (10 * ln 10)"
proof -
  have "ln ((10::real) ^ 10) = real 10 * ln 10"
    by (rule ln_realpow)
  moreover have "ln (1 / 10 ^ 10 :: real) = ln 1 - ln (10 ^ 10)"
    by (simp only: ln_div) simp
  ultimately show ?thesis by simp
qed

lemma lyapunov_below_filtered_boundary:
  "lyapunov_below_filtered (items (chaos_separations boundary_result)) = 2 * ln 10"
proof -
  have "filter (\<lambda>x. \<not> x < 1 / 10 ^ 10) (items (chaos_separations boundary_result)) =
        [1 / 10 ^ 10, 1, 1, 1, 1, 1 :: real]"
    by (simp add: boundary_result_def)
  moreover have "mean_log_growth [1 / 10 ^ 10, 1, 1, 1, 1, 1 :: real] = 2 * ln 10"
    using ln_tenth_power by (simp add: mean_log_growth_def np_diff_def)
  moreover have "length (items (chaos_separations boundary_result)) = 11"
    by (simp add: boundary_result_def)
  ultimately show ?thesis
    by (simp add: lyapunov_below_filtered_def Let_def)
qed

text \<open>
  Claim C7 as stated removes only the samples below \<open>1e-10\<close>. On \<open>boundary_state\<close> the
  series then keeps six samples and the stated value is \<open>2 * ln 10\<close>, while the program
  keeps five and appends 0.
\<close>

theorem below_threshold_filter_counterexample:
  "analyze_chaos boundary_state = Inr boundary_result \<and>
   last (items (chaos_lyapunov boundary_result)) = 0 \<and>
   lyapunov_below_filtered (items (chaos_separations boundary_result)) = 2 * ln 10 \<and>
   (0::real) < 2 * ln 10"
proof -
  have "last (items (chaos_lyapunov boundary_result)) = 0"
    by (simp add: boundary_result_def)
  moreover have "(0::real) < 2 * ln 10"
    by simp
  ultimately show ?thesis
    using analyze_chaos_boundary lyapunov_below_filtered_boundary by blast
qed

subsection \<open>Energy\<close>

lemma vnorm_zero_iff: "vnorm (vsub a b) = 0 \<longleftrightarrow> a = b"
  by (simp add: vnorm_def vsub_def prod_eq_iff)

lemma vnorm_squared: "(vnorm a) ^ 2 = (fst a) ^ 2 + (snd a) ^ 2"
  by (simp add: vnorm_def)

lemma energy_inner_eq:
  assumes "i < length (positions s)" and "i < length (masses s)"
    and "\<forall>j\<in>set js. j < length (positions s) \<and> j < length (masses s)"
  shows "energy_inner s i js pot =
     (if \<exists>j\<in>set js. positions s ! j = positions s ! i then Inl ZeroDivide
      else Inr (pot - sum_list (map (pair_potential (masses s) (positions s) i) js)))"
  using assms
proof (induction js arbitrary: pot)
  case Nil
  then show ?case by simp
next
  case (Cons j js)
  let ?q = "pair_potential (masses s) (positions s) i j"
  show ?case
  proof (cases "positions s ! j = positions s ! i")
    case True
    then show ?thesis
      using Cons.prems by (simp add: fdiv_def vnorm_zero_iff)
  next
    case False
    then have q: "fdiv (G_scaled * (masses s ! i) * (masses s ! j))
                    (vnorm (vsub (positions s ! j) (positions s ! i))) = Inr ?q"
      by (simp add: fdiv_def vnorm_zero_iff pair_potential_def)
    have "energy_inner s i js (pot - ?q) =
       (if \<exists>j\<in>set js. positions s ! j = positions s ! i then Inl ZeroDivide
        else Inr (pot - ?q - sum_list (map (pair_potential (masses s) (positions s) i) js)))"
      using Cons.prems by (intro Cons.IH) simp_all
    then show ?thesis
      using False Cons.prems q by (simp add: Let_def algebra_simps)
  qed
qed

lemma energy_outer_eq:
  assumes "n = length (masses s)" and "n \<le> length (positions s)" and "\<forall>i\<in>set ks. i < n"
  shows "energy_outer s n ks pot =
     (if \<exists>i\<in>set ks. \<exists>j\<in>set [Suc i..<n]. positions s ! j = positions s ! i then Inl ZeroDivide
      else Inr (pot - sum_list (map (\<lambda>i. sum_list (map (pair_potential (masses s) (positions s) i) [Suc i..<n])) ks)))"
  using assms
proof (induction ks arbitrary: pot)
  case Nil
  then show ?case by simp
next
  case (Cons i ks)
  have inner: "energy_inner s i [Suc i..<n] pot =
     (if \<exists>j\<in>set [Suc i..<n]. positions s ! j = positions s ! i then Inl ZeroDivide
      else Inr (pot - sum_list (map (pair_potential (masses s) (positions s) i) [Suc i..<n])))"
    using Cons.prems by (intro energy_inner_eq) auto
  have rest: "\<And>q. energy_outer s n ks q =
     (if \<exists>i\<in>set ks. \<exists>j\<in>set [Suc i..<n]. positions s ! j = positions s ! i then Inl ZeroDivide
      else Inr (q - sum_list (map (\<lambda>i. sum_list (map (pair_potential (masses s) (positions s) i) [Suc i..<n])) ks)))"
    using Cons.prems by (intro Cons.IH) simp_all
  show ?case
    using inner rest by (simp add: algebra_simps)
qed

lemma coincident_iff_not_distinct:
  "(\<exists>i\<in>set [0..<length ps]. \<exists>j\<in>set [Suc i..<length ps]. ps ! j = ps ! i) \<longleftrightarrow> \<not> distinct ps"
proof
  assume "\<exists>i\<in>set [0..<length ps]. \<exists>j\<in>set [Suc i..<length ps]. ps ! j = ps ! i"
  then obtain i j where ij: "i < j" "j < length ps" "ps ! j = ps ! i"
    by (auto simp: Suc_le_eq)
  then have "i < length ps" and "i \<noteq> j" by simp_all
  with ij show "\<not> distinct ps"
    unfolding distinct_conv_nth by metis
next
  assume "\<not> distinct ps"
  then obtain i j where ij: "i < length ps" "j < length ps" "i \<noteq> j" "ps ! i = ps ! j"
    by (auto simp: distinct_conv_nth)
  show "\<exists>i\<in>set [0..<length ps]. \<exists>j\<in>set [Suc i..<length ps]. ps ! j = ps ! i"
  proof (cases "i < j")
    case True
    with ij show ?thesis by (intro bexI [of _ i] bexI [of _ j]) auto
  next
    case False
    with ij have "j < i" by simp
    with ij show ?thesis by (intro bexI [of _ j] bexI [of _ i]) auto
  qed
qed

lemma kinetic_eq:
  assumes "length vs = length ms"
  shows "0.5 * np_sum_all (map2 smul ms (map vsquare vs)) = kinetic_energy ms vs"
proof -
  let ?mv = "map2 smul ms (map vsquare vs)"
  have "np_sum_all ?mv = (\<Sum>i = 0..<length ms. fst (?mv ! i) + snd (?mv ! i))"
    using assms by (simp add: np_sum_all_def sum_list_sum_nth)
  also have "\<dots> = (\<Sum>i = 0..<length ms. (ms ! i) * (vnorm (vs ! i)) ^ 2)"
    using assms by (intro sum.cong) (simp_all add: smul_def vsquare_def vnorm_squared algebra_simps)
  finally have "0.5 * np_sum_all ?mv = (\<Sum>i = 0..<length ms. 1 / 2 * ((ms ! i) * (vnorm (vs ! i)) ^ 2))"
    by (simp add: sum_distrib_left)
  then show ?thesis
    by (simp add: kinetic_energy_def atLeast0LessThan mult.assoc)
qed

lemma potential_eq:
  "0 - sum_list (map (\<lambda>i. sum_list (map (pair_potential ms ps i) [Suc i..<length ms])) [0..<length ms])
     = potential_energy ms ps"
proof -
  have "sum_list (map (\<lambda>i. sum_list (map (pair_potential ms ps i) [Suc i..<length ms])) [0..<length ms])
      = (\<Sum>i<length ms. \<Sum>j = Suc i..<length ms. pair_potential ms ps i j)"
    by (simp add: interv_sum_list_conv_sum_set_nat atLeast0LessThan)
  also have "\<dots> = (\<Sum>i<length ms. \<Sum>j = Suc i..<length ms.
        G_scaled * (ms ! i) * (ms ! j) / vnorm (vsub (ps ! i) (ps ! j)))"
    by (simp add: pair_potential_def vnorm_vsub_commute [of "ps ! _" "ps ! _"])
  finally show ?thesis
    by (simp add: potential_energy_def sum_negf)
qed

lemma get_energy_eq:
  assumes "length (positions s) = length (masses s)" and "length (velocities s) = length (masses s)"
  shows "get_energy s =
     (if distinct (positions s)
      then Inr (kinetic_energy (masses s) (velocities s) + potential_energy (masses s) (positions s))
      else Inl ZeroDivide)"
proof -
  let ?n = "length (masses s)"
  have k: "np_broadcast smul (masses s) (map vsquare (velocities s)) =
        Inr (map2 smul (masses s) (map vsquare (velocities s)))"
    using assms by (simp add: np_broadcast_same)
  have o: "energy_outer s ?n [0..<?n] 0 =
     (if \<exists>i\<in>set [0..<?n]. \<exists>j\<in>set [Suc i..<?n]. positions s ! j = positions s ! i then Inl ZeroDivide
      else Inr (0 - sum_list (map (\<lambda>i. sum_list (map (pair_potential (masses s) (positions s) i) [Suc i..<?n])) [0..<?n])))"
    using assms by (intro energy_outer_eq) simp_all
  have c: "(\<exists>i\<in>set [0..<?n]. \<exists>j\<in>set [Suc i..<?n]. positions s ! j = positions s ! i) \<longleftrightarrow>
      \<not> distinct (positions s)"
    using coincident_iff_not_distinct [of "positions s"] assms by simp
  show ?thesis
    unfolding get_energy_def k Let_def
    using o c kinetic_eq [OF assms(2)] potential_eq [of "masses s" "positions s"]
    by (simp del: set_upt)
qed

text \<open>
  Claim C6. \<^verbatim>\<open>get_energy\<close> is a function of the simulator, which it does not change:
  for bodies at pairwise different positions it returns the kinetic energy, the sum of
  \<open>1/2 * mass[i] * |vel[i]|^2\<close>, plus the potential energy, the sum over \<open>i < j\<close> of
  \<open>- G_scaled * mass[i] * mass[j] / |pos[i] - pos[j]|\<close> with the exact distance; the
  softening length does not occur in it.
\<close>

theorem get_energy_formula:
  assumes "length (positions s) = length (masses s)"
    and "length (velocities s) = length (masses s)"
    and "distinct (positions s)"
  shows "get_energy s =
     Inr (kinetic_energy (masses s) (velocities s) + potential_energy (masses s) (positions s))"
  using assms by (simp add: get_energy_eq)

lemma sample_kinetic: "kinetic_energy [2, 1, 1] [(0, 0), (0, 1), (1, 0)] = 1"
  by (simp add: kinetic_energy_def vnorm_def lessThan_Suc eval_nat_numeral)

lemma sample_potential:
  "potential_energy [2, 1, 1] [(0, 0), (3, 0), (0, 4)] = - (41 * G_scaled / 30)"
proof -
  have "vnorm (vsub (0, 0) (3, 0)) = 3" "vnorm (vsub (0, 0) (0, 4)) = 4"
    "vnorm (vsub (3, 0) (0, 4)) = 5"
    by (simp_all add: vnorm_def vsub_def)
  then show ?thesis
    by (simp add: potential_energy_def lessThan_Suc eval_nat_numeral sum.atLeast_Suc_lessThan)
qed

theorem get_energy_formula_witness:
  "get_energy sample_state = Inr (1 - 41 * G_scaled / 30)"
proof -
  have "get_energy sample_state =
     Inr (kinetic_energy (masses sample_state) (velocities sample_state) +
          potential_energy (masses sample_state) (positions sample_state))"
    by (rule get_energy_formula) (simp_all add: sample_state_def)
  then show ?thesis
    by (simp add: sample_state_def sample_kinetic sample_potential)
qed

text \<open>
  Claim C10. \<^verbatim>\<open>get_energy\<close> divides by the distance of each pair of bodies without a
  guard: it divides by zero exactly when two bodies are at the same position, and it
  returns an energy exactly when the positions are pairwise different.
\<close>

theorem get_energy_defined_iff_distinct:
  assumes "length (positions s) = length (masses s)"
    and "length (velocities s) = length (masses s)"
  shows "(get_energy s = Inl ZeroDivide \<longleftrightarrow> \<not> distinct (positions s)) \<and>
         ((\<exists>e. get_energy s = Inr e) \<longleftrightarrow> distinct (positions s))"
  using assms by (simp add: get_energy_eq)

theorem get_energy_defined_iff_distinct_witness:
  "get_energy (sample_state\<lparr>positions := [(0, 0), (3, 0), (3, 0)]\<rparr>) = Inl ZeroDivide \<and>
   (\<exists>e. get_energy sample_state = Inr e)"
proof -
  have "get_energy (sample_state\<lparr>positions := [(0, 0), (3, 0), (3, 0)]\<rparr>) = Inl ZeroDivide"
    using get_energy_defined_iff_distinct [of "sample_state\<lparr>positions := [(0, 0), (3, 0), (3, 0)]\<rparr>"]
    by (simp add: sample_state_def)
  moreover have "\<exists>e. get_energy sample_state = Inr e"
    using get_energy_defined_iff_distinct [of sample_state]
    by (simp add: sample_state_def)
  ultimately show ?thesis by blast
qed

subsection \<open>Construction\<close>

lemma DISTANCE_SCALE_pos: "0 < DISTANCE_SCALE"
  by (simp add: DISTANCE_SCALE_def AU_def)

lemma vnorm_shifted: "vnorm (vsub (vsub a c) (vsub b c)) = vnorm (vsub a b)"
  by (simp add: vnorm_def vsub_def)

lemma vsub_smul: "vsub (smul c a) (smul c b) = smul c (vsub a b)"
  by (simp add: vsub_def smul_def algebra_simps)

lemma init_with_succeeds:
  assumes "length ps = length ms" and "length vs = length ms" and "3 \<le> length ms"
    and "sum_list ms \<noteq> 0"
  shows "\<exists>s. init_with ms ps vs = Inr s \<and>
           masses s = map (\<lambda>m. m * MASS_SCALE) ms \<and>
           length (positions s) = length ps \<and>
           length (velocities s) = length vs \<and>
           length (trajectories s) = 3 \<and>
           time s = 0 \<and> dt s = TIME_SCALE * 100 \<and>
           initial_separation s = DISTANCE_SCALE * vnorm (vsub (ps ! 1) (ps ! 2))"
proof -
  define s0 :: simulator where "s0 =
       \<lparr>masses = map (\<lambda>m. m * MASS_SCALE) ms,
        positions = map (\<lambda>p. smul DISTANCE_SCALE p) ps,
        velocities = map (\<lambda>v. smul (sqrt (G_scaled * MASS_SCALE / DISTANCE_SCALE)) v) vs,
        trajectory_length = 500,
        trajectories = replicate 3 (deque_new 500),
        dt = TIME_SCALE * 100,
        time = 0,
        chaos_times = deque_new 1000,
        chaos_separations = deque_new 1000,
        chaos_lyapunov = deque_new 1000,
        initial_separation = 0,
        colors = [''gold'', ''red'', ''blue''],
        sizes = [20, 15, 12]\<rparr>"
  have total: "sum_list (masses s0) \<noteq> 0"
    using assms(4) MASS_SCALE_pos by (simp add: s0_def sum_list_scaled)
  have shape: "length (masses s0) = length (positions s0)" "length (masses s0) = length (velocities s0)"
    using assms(1,2) by (simp_all add: s0_def)
  define cp where "cp = (fst (weighted_sum (masses s0) (positions s0)) / sum_list (masses s0),
                        snd (weighted_sum (masses s0) (positions s0)) / sum_list (masses s0))"
  define cv where "cv = (fst (weighted_sum (masses s0) (velocities s0)) / sum_list (masses s0),
                        snd (weighted_sum (masses s0) (velocities s0)) / sum_list (masses s0))"
  have adj: "adjust_center_of_mass s0 =
      Inr (s0\<lparr>positions := map (\<lambda>p. vsub p cp) (positions s0),
              velocities := map (\<lambda>v. vsub v cv) (velocities s0)\<rparr>)"
    unfolding cp_def cv_def using shape total by (rule adjust_center_of_mass_result)
  have n: "1 < length ps" "2 < length ps"
    using assms(1,3) by simp_all
  have sep: "vnorm (vsub (vsub (smul DISTANCE_SCALE (ps ! 1)) cp) (vsub (smul DISTANCE_SCALE (ps ! 2)) cp))
      = DISTANCE_SCALE * vnorm (vsub (ps ! 1) (ps ! 2))"
    using DISTANCE_SCALE_pos by (simp add: vnorm_shifted vsub_smul vnorm_smul)
  have "init_with ms ps vs =
      Inr (s0\<lparr>positions := map (\<lambda>p. vsub p cp) (positions s0),
              velocities := map (\<lambda>v. vsub v cv) (velocities s0),
              initial_separation := DISTANCE_SCALE * vnorm (vsub (ps ! 1) (ps ! 2))\<rparr>)"
    unfolding init_with_def s0_def [symmetric] adj
    using n sep by (simp add: s0_def)
  then show ?thesis
    by (simp add: s0_def)
qed

lemma init_initial_separation: "vnorm (vsub (1.5, 0.0) (0.75, 1.3)) \<noteq> 0"
  by (simp add: vnorm_zero_iff)

lemma init_state:
  "\<exists>s. init = Inr s \<and> three_bodies s \<and>
       masses s = [1.0 * MASS_SCALE, 0.1 * MASS_SCALE, 0.05 * MASS_SCALE] \<and>
       0 < masses s ! 0 \<and> 0 < masses s ! 1 \<and> 0 < masses s ! 2 \<and>
       time s = 0 \<and> dt s = TIME_SCALE * 100 \<and> initial_separation s \<noteq> 0"
proof -
  let ?ms = "[1.0, 0.1, 0.05] :: real list"
  let ?ps = "[(0.0, 0.0), (1.5, 0.0), (0.75, 1.3)] :: vec list"
  let ?vs = "[(0.0, 1.0), (0.0, - 3.0), (- 2.5, 1.5)] :: vec list"
  have "\<exists>s. init_with ?ms ?ps ?vs = Inr s \<and>
           masses s = map (\<lambda>m. m * MASS_SCALE) ?ms \<and>
           length (positions s) = length ?ps \<and>
           length (velocities s) = length ?vs \<and>
           length (trajectories s) = 3 \<and>
           time s = 0 \<and> dt s = TIME_SCALE * 100 \<and>
           initial_separation s = DISTANCE_SCALE * vnorm (vsub (?ps ! 1) (?ps ! 2))"
    by (rule init_with_succeeds) simp_all
  then obtain s where s: "init = Inr s" "masses s = map (\<lambda>m. m * MASS_SCALE) ?ms"
    "length (positions s) = 3" "length (velocities s) = 3" "length (trajectories s) = 3"
    "time s = 0" "dt s = TIME_SCALE * 100"
    "initial_separation s = DISTANCE_SCALE * vnorm (vsub (?ps ! 1) (?ps ! 2))"
    unfolding init_def by auto
  have "initial_separation s \<noteq> 0"
    using s(8) DISTANCE_SCALE_pos init_initial_separation by simp
  then show ?thesis
    using s MASS_SCALE_pos by (intro exI [of _ s]) (simp add: three_bodies_def)
qed

text \<open>
  Claim C9, as amended. The constructor takes no argument and checks nothing. A call
  without arguments returns the one hard-coded configuration, which has three bodies,
  three rows in every per-body array and positive masses. A call with any argument fails
  with TypeError and returns no simulator, whatever the arrays passed: construction
  fails exactly when an argument is given.
\<close>

theorem construction_takes_no_arguments:
  "(isl (construct args) \<longleftrightarrow> args \<noteq> []) \<and>
   (args \<noteq> [] \<longrightarrow> construct args = Inl TypeError) \<and>
   (\<exists>s. construct [] = Inr s \<and> three_bodies s \<and>
       masses s = [1.0 * MASS_SCALE, 0.1 * MASS_SCALE, 0.05 * MASS_SCALE] \<and>
       0 < masses s ! 0 \<and> 0 < masses s ! 1 \<and> 0 < masses s ! 2 \<and>
       time s = 0 \<and> dt s = TIME_SCALE * 100 \<and> initial_separation s \<noteq> 0)"
proof -
  obtain s where s: "init = Inr s" "three_bodies s"
       "masses s = [1.0 * MASS_SCALE, 0.1 * MASS_SCALE, 0.05 * MASS_SCALE]"
       "0 < masses s ! 0" "0 < masses s ! 1" "0 < masses s ! 2"
       "time s = 0" "dt s = TIME_SCALE * 100" "initial_separation s \<noteq> 0"
    using init_state by blast
  have "construct [] = Inr s"
    using s(1) by (simp add: construct_def)
  moreover have "isl (construct args) \<longleftrightarrow> args \<noteq> []"
    by (cases "args = []") (simp_all add: construct_def s(1))
  moreover have "args \<noteq> [] \<longrightarrow> construct args = Inl TypeError"
    by (simp add: construct_def)
  ultimately show ?thesis
    using s by blast
qed

theorem construction_takes_no_arguments_witness:
  "construct [Array1 [1.0, - 0.1, 0.05], Array2 [(0.0, 0.0), (1.5, 0.0), (0.75, 1.3)],
              Array2 [(0.0, 1.0), (0.0, - 3.0)]] = Inl TypeError \<and>
   \<not> isl (construct [])"
  using construction_takes_no_arguments [of "[Array1 [1.0, - 0.1, 0.05], Array2 [(0.0, 0.0), (1.5, 0.0), (0.75, 1.3)],
              Array2 [(0.0, 1.0), (0.0, - 3.0)]]"] construction_takes_no_arguments [of "[]"]
  by simp

text \<open>
  Claim C9 as stated has construction accept per-body arrays as parameters. A call with
  the hard-coded masses, positions and velocities as arguments, a valid configuration, is
  refused with TypeError.
\<close>

theorem construction_arguments_counterexample:
  "construct [Array1 [1.0, 0.1, 0.05],
              Array2 [(0.0, 0.0), (1.5, 0.0), (0.75, 1.3)],
              Array2 [(0.0, 1.0), (0.0, - 3.0), (- 2.5, 1.5)]] = Inl TypeError"
  by (simp add: construct_def)

subsection \<open>Running the simulation\<close>

lemma length_rk4_positions:
  "length vel = length pos \<Longrightarrow> length (rk4_positions h ms pos vel) = length pos"
  by (simp add: rk4_positions_def rk4_k1_def rk4_k2_def rk4_k3_def rk4_k4_def Let_def)

lemma length_rk4_velocities:
  "length vel = length pos \<Longrightarrow> length (rk4_velocities h ms pos vel) = length pos"
  by (simp add: rk4_velocities_def rk4_k1_def rk4_k2_def rk4_k3_def rk4_k4_def Let_def)

lemma update_system_returns:
  assumes "three_bodies s" and "initial_separation s \<noteq> 0"
  shows "\<exists>s'. update_system s = Inr s' \<and> three_bodies s' \<and>
           initial_separation s' = initial_separation s \<and>
           masses s' = masses s \<and> dt s' = dt s \<and>
           positions s' = rk4_positions (dt s) (masses s) (positions s) (velocities s) \<and>
           velocities s' = rk4_velocities (dt s) (masses s) (positions s) (velocities s) \<and>
           time s' = time s + dt s"
proof -
  let ?p = "rk4_positions (dt s) (masses s) (positions s) (velocities s)"
  let ?v = "rk4_velocities (dt s) (masses s) (positions s) (velocities s)"
  obtain tr where tr: "length tr = 3" and upd: "update_system s =
      analyze_chaos (s\<lparr>positions := ?p, velocities := ?v, time := time s + dt s, trajectories := tr\<rparr>)"
    using update_system_eq [OF assms(1)] by blast
  have len: "length ?p = 3" "length ?v = 3"
    using assms(1) by (simp_all add: three_bodies_def length_rk4_positions length_rk4_velocities)
  show ?thesis
    unfolding upd using len tr assms
    by (simp add: analyze_chaos_eq three_bodies_def)
qed

lemma run_steps_returns:
  assumes "three_bodies s" and "initial_separation s \<noteq> 0"
  shows "\<exists>s'. run_steps n s = Inr s' \<and> three_bodies s' \<and>
           initial_separation s' = initial_separation s \<and>
           masses s' = masses s \<and> dt s' = dt s \<and>
           (positions s', velocities s') =
              rk4_trajectory n (dt s) (masses s) (positions s, velocities s) \<and>
           time s' = time s + real n * dt s"
  using assms
proof (induction n arbitrary: s)
  case 0
  then show ?case by simp
next
  case (Suc n)
  obtain s1 where s1: "update_system s = Inr s1" "three_bodies s1"
    "initial_separation s1 = initial_separation s" "masses s1 = masses s" "dt s1 = dt s"
    "positions s1 = rk4_positions (dt s) (masses s) (positions s) (velocities s)"
    "velocities s1 = rk4_velocities (dt s) (masses s) (positions s) (velocities s)"
    "time s1 = time s + dt s"
    using update_system_returns [OF Suc.prems] by blast
  have "\<exists>s'. run_steps n s1 = Inr s' \<and> three_bodies s' \<and>
           initial_separation s' = initial_separation s1 \<and>
           masses s' = masses s1 \<and> dt s' = dt s1 \<and>
           (positions s', velocities s') =
              rk4_trajectory n (dt s1) (masses s1) (positions s1, velocities s1) \<and>
           time s' = time s1 + real n * dt s1"
    using s1 Suc.prems by (intro Suc.IH) simp_all
  then obtain s' where s': "run_steps n s1 = Inr s'" "three_bodies s'"
    "initial_separation s' = initial_separation s1" "masses s' = masses s1" "dt s' = dt s1"
    "(positions s', velocities s') = rk4_trajectory n (dt s1) (masses s1) (positions s1, velocities s1)"
    "time s' = time s1 + real n * dt s1"
    by blast
  have "time s' = time s + real (Suc n) * dt s"
    using s'(7) s1(5,8) by (simp add: algebra_simps)
  with s1 s' show ?case
    by (intro exI [of _ s']) simp
qed

text \<open>
  Claim C8. The positions and velocities after any number of calls of
  \<^verbatim>\<open>update_system\<close> are \<open>rk4_trajectory\<close>, a function of the masses, the initial
  positions and velocities and \<open>dt\<close>: two simulators of three bodies that agree on these
  have the same positions and velocities after \<open>n\<close> steps, and their clocks advance by
  \<open>n * dt\<close>. When they agree on every other field as well, the simulators after \<open>n\<close>
  steps are equal field for field. The step reads nothing but the simulator.
\<close>

theorem update_system_deterministic:
  assumes "three_bodies s1" and "initial_separation s1 \<noteq> 0"
    and "three_bodies s2" and "initial_separation s2 \<noteq> 0"
    and "masses s1 = masses s2" and "positions s1 = positions s2"
    and "velocities s1 = velocities s2" and "dt s1 = dt s2"
  shows "\<exists>r1 r2. run_steps n s1 = Inr r1 \<and> run_steps n s2 = Inr r2 \<and>
           positions r1 = positions r2 \<and> velocities r1 = velocities r2 \<and>
           (positions r1, velocities r1) =
              rk4_trajectory n (dt s1) (masses s1) (positions s1, velocities s1) \<and>
           time r1 = time s1 + real n * dt s1 \<and>
           time r2 = time s2 + real n * dt s2 \<and>
           (trajectory_length s1 = trajectory_length s2 \<and> trajectories s1 = trajectories s2 \<and>
            time s1 = time s2 \<and> chaos_times s1 = chaos_times s2 \<and>
            chaos_separations s1 = chaos_separations s2 \<and> chaos_lyapunov s1 = chaos_lyapunov s2 \<and>
            initial_separation s1 = initial_separation s2 \<and> colors s1 = colors s2 \<and>
            sizes s1 = sizes s2 \<longrightarrow> r1 = r2)"
proof -
  obtain r1 where r1: "run_steps n s1 = Inr r1"
    "(positions r1, velocities r1) = rk4_trajectory n (dt s1) (masses s1) (positions s1, velocities s1)"
    "time r1 = time s1 + real n * dt s1"
    using run_steps_returns [OF assms(1,2), of n] by blast
  obtain r2 where r2: "run_steps n s2 = Inr r2"
    "(positions r2, velocities r2) = rk4_trajectory n (dt s2) (masses s2) (positions s2, velocities s2)"
    "time r2 = time s2 + real n * dt s2"
    using run_steps_returns [OF assms(3,4), of n] by blast
  have same: "(positions r1, velocities r1) = (positions r2, velocities r2)"
    using r1(2) r2(2) assms(5-8) by simp
  have whole: "r1 = r2" if "trajectory_length s1 = trajectory_length s2 \<and> trajectories s1 = trajectories s2 \<and>
            time s1 = time s2 \<and> chaos_times s1 = chaos_times s2 \<and>
            chaos_separations s1 = chaos_separations s2 \<and> chaos_lyapunov s1 = chaos_lyapunov s2 \<and>
            initial_separation s1 = initial_separation s2 \<and> colors s1 = colors s2 \<and>
            sizes s1 = sizes s2"
  proof -
    have "s1 = s2"
      using that assms(5-8) by (intro simulator.equality) simp_all
    with r1(1) r2(1) show ?thesis by simp
  qed
  from same have eq: "positions r1 = positions r2" "velocities r1 = velocities r2"
    by simp_all
  from r1 r2 eq whole show ?thesis
    by blast
qed

theorem update_system_deterministic_witness:
  "\<exists>r1 r2. run_steps 2 sample_state = Inr r1 \<and>
      run_steps 2 (sample_state\<lparr>time := 7, initial_separation := 2, colors := []\<rparr>) = Inr r2 \<and>
      positions r1 = positions r2 \<and> velocities r1 = velocities r2 \<and>
      (positions r1, velocities r1) =
         rk4_trajectory 2 1 [2, 1, 1] ([(0, 0), (3, 0), (0, 4)], [(0, 0), (0, 1), (1, 0)]) \<and>
      time r1 = 2 \<and> time r2 = 9"
proof -
  let ?s2 = "sample_state\<lparr>time := 7, initial_separation := 2, colors := []\<rparr>"
  have "\<exists>r1 r2. run_steps 2 sample_state = Inr r1 \<and> run_steps 2 ?s2 = Inr r2 \<and>
           positions r1 = positions r2 \<and> velocities r1 = velocities r2 \<and>
           (positions r1, velocities r1) =
              rk4_trajectory 2 (dt sample_state) (masses sample_state)
                (positions sample_state, velocities sample_state) \<and>
           time r1 = time sample_state + real 2 * dt sample_state \<and>
           time r2 = time ?s2 + real 2 * dt ?s2 \<and>
           (trajectory_length sample_state = trajectory_length ?s2 \<and>
            trajectories sample_state = trajectories ?s2 \<and>
            time sample_state = time ?s2 \<and> chaos_times sample_state = chaos_times ?s2 \<and>
            chaos_separations sample_state = chaos_separations ?s2 \<and>
            chaos_lyapunov sample_state = chaos_lyapunov ?s2 \<and>
            initial_separation sample_state = initial_separation ?s2 \<and>
            colors sample_state = colors ?s2 \<and>
            sizes sample_state = sizes ?s2 \<longrightarrow> r1 = r2)"
    by (rule update_system_deterministic) (simp_all add: three_bodies_def sample_state_def)
  then obtain r1 r2 where "run_steps 2 sample_state = Inr r1" "run_steps 2 ?s2 = Inr r2"
    "positions r1 = positions r2" "velocities r1 = velocities r2"
    "(positions r1, velocities r1) =
              rk4_trajectory 2 (dt sample_state) (masses sample_state)
                (positions sample_state, velocities sample_state)"
    "time r1 = time sample_state + real 2 * dt sample_state"
    "time r2 = time ?s2 + real 2 * dt ?s2"
    by blast
  moreover have "dt sample_state = 1" "time sample_state = 0" "masses sample_state = [2, 1, 1]"
    "positions sample_state = [(0, 0), (3, 0), (0, 4)]"
    "velocities sample_state = [(0, 0), (0, 1), (1, 0)]"
    by (simp_all add: sample_state_def)
  ultimately show ?thesis
    by (intro exI [of _ r1] exI [of _ r2]) simp
qed

text \<open>
  From the constructed simulator every number of steps returns: the shape and the
  nonzero initial separation that the step theorems assume hold in every state the
  program reaches.
\<close>

lemma simulation_returns:
  "\<exists>s0. init = Inr s0 \<and> (\<forall>n. \<exists>s. run_steps n s0 = Inr s \<and> three_bodies s)"
proof -
  obtain s0 where s0: "init = Inr s0" "three_bodies s0" "initial_separation s0 \<noteq> 0"
    using init_state by blast
  have "\<exists>s. run_steps n s0 = Inr s \<and> three_bodies s" for n
    using run_steps_returns [OF s0(2,3), of n] by blast
  with s0(1) show ?thesis by blast
qed

end
